theory Spec2Isabelle
  imports Complex_Main "HOL-Library.AList" "HOL-Library.Char_ord" "HOL-Library.List_Lexorder"
begin

section \<open>Python values, errors and dictionaries\<close>

text \<open>
  The colony manager of \<^verbatim>\<open>simulation/logic/blob_manager.py\<close> keeps everything it knows in
  one Python dictionary, \<^verbatim>\<open>self.knowledge\<close>, loaded from a JSON file and extended with the
  two derived entries \<^verbatim>\<open>'food'\<close> (a list of coordinate tuples) and \<^verbatim>\<open>'max_scouters'\<close>.
  Its values are modelled by the datatype \<open>pyval\<close>. A float of the knowledge is the
  rational value of a finite double. A dictionary is an association list in insertion
  order.

  Every exception the code can raise is a value of \<open>error\<close>; a function that can raise
  returns \<open>error + 'a\<close>, with \<open>Inl\<close> for the exception.
\<close>

datatype error =
  OSError | JSONDecodeError | KeyError | TypeError | ValueError | OverflowError | ZeroDivisionError

datatype pyval =
    PNone
  | PBool bool
  | PInt int
  | PFloat rat
  | PStr string
  | PList "pyval list"
  | PTuple "pyval list"
  | PDict "(string \<times> pyval) list"

type_synonym dict = "(string \<times> pyval) list"

subsection \<open>Floating-point arithmetic\<close>

text \<open>
  Python's float is the IEEE 754 double. A double is a rational with a significand of at
  most 53 bits and an exponent in range, an infinity or a NaN; the sign of a zero is not
  modelled, since no result of the manager depends on it. Every operation computes the
  exact result and rounds it to the nearest double, ties to the even significand; a result
  beyond the largest double is an infinity, and a result below the smallest normal double
  is rounded to a multiple of \<open>pow2 (- 1074)\<close>.

  \<open>pow2 k\<close> is the power of two with the integer exponent \<open>k\<close>; \<open>floor_log2 x\<close> is the
  exponent \<open>e\<close> with \<open>pow2 e \<le> x < pow2 (e + 1)\<close> of a positive \<open>x\<close>; \<open>round_unit x q\<close>
  rounds \<open>x\<close> to a multiple of \<open>pow2 q\<close>.
\<close>

datatype double = Finite rat | Infinity bool | NaN

function log2_int :: "int \<Rightarrow> int" where
  "log2_int n = (if n < 2 then 0 else 1 + log2_int (n div 2))"
  by pat_completeness auto
termination
  by (relation "measure nat") auto

definition pow2 :: "int \<Rightarrow> rat" where
  "pow2 k = (if 0 \<le> k then 2 ^ nat k else 1 / 2 ^ nat (- k))"

definition floor_log2 :: "rat \<Rightarrow> int" where
  "floor_log2 x =
     (if 1 \<le> x then log2_int \<lfloor>x\<rfloor>
      else if 1 / x = pow2 (log2_int \<lfloor>1 / x\<rfloor>) then - log2_int \<lfloor>1 / x\<rfloor>
      else - log2_int \<lfloor>1 / x\<rfloor> - 1)"

definition round_tie :: "int \<Rightarrow> rat \<Rightarrow> int" where
  "round_tie f d = (if d < 1 / 2 then f else if 1 / 2 < d then f + 1 else if even f then f else f + 1)"

definition round_from :: "rat \<Rightarrow> int \<Rightarrow> int" where
  "round_from y f = round_tie f (y - of_int f)"

definition round_half_even :: "rat \<Rightarrow> int" where
  "round_half_even y = round_from y \<lfloor>y\<rfloor>"

text \<open>
  The rounded significand \<open>n\<close> at the exponent \<open>q\<close>: the largest double has the
  significand \<open>2 ^ 53 - 1\<close> at the exponent 971, anything that rounds beyond it is an
  infinity.
\<close>

definition finish :: "bool \<Rightarrow> int \<Rightarrow> int \<Rightarrow> double" where
  "finish neg n q =
     (if 971 < q \<or> (q = 971 \<and> 9007199254740992 \<le> n) then Infinity neg
      else Finite (if neg then - (of_int n * pow2 q) else of_int n * pow2 q))"

definition round_unit :: "rat \<Rightarrow> int \<Rightarrow> double" where
  "round_unit x q = finish (x < 0) (round_half_even (\<bar>x\<bar> / pow2 q)) q"

definition round_double :: "rat \<Rightarrow> double" where
  "round_double x =
     (if x = 0 then Finite 0 else round_unit x (max (floor_log2 \<bar>x\<bar> - 52) (- 1074)))"

fun dmul :: "double \<Rightarrow> double \<Rightarrow> double" where
  "dmul (Finite a) (Finite b) = round_double (a * b)"
| "dmul (Finite a) (Infinity s) = (if a = 0 then NaN else Infinity (s \<noteq> (a < 0)))"
| "dmul (Infinity s) (Finite b) = (if b = 0 then NaN else Infinity (s \<noteq> (b < 0)))"
| "dmul (Infinity s) (Infinity t) = Infinity (s \<noteq> t)"
| "dmul NaN y = NaN"
| "dmul x NaN = NaN"

fun dadd :: "double \<Rightarrow> double \<Rightarrow> double" where
  "dadd (Finite a) (Finite b) = round_double (a + b)"
| "dadd (Finite a) (Infinity s) = Infinity s"
| "dadd (Infinity s) (Finite b) = Infinity s"
| "dadd (Infinity s) (Infinity t) = (if s = t then Infinity s else NaN)"
| "dadd NaN y = NaN"
| "dadd x NaN = NaN"

text \<open>
  A Python number is an int of any size or a float. Converting an int to a float rounds
  it, and raises OverflowError when it is beyond the doubles. The product and the sum of
  two ints are exact; with a float operand, the int operand is converted first. The true
  division of two ints is the correctly rounded quotient.
\<close>

datatype pynum = NInt int | NFloat double

definition to_float :: "int \<Rightarrow> error + double" where
  "to_float i = (case round_double (of_int i) of Infinity s \<Rightarrow> Inl OverflowError | d \<Rightarrow> Inr d)"

fun num_mul :: "pynum \<Rightarrow> pynum \<Rightarrow> error + pynum" where
  "num_mul (NInt a) (NInt b) = Inr (NInt (a * b))"
| "num_mul (NInt a) (NFloat y) =
     (case to_float a of Inl e \<Rightarrow> Inl e | Inr x \<Rightarrow> Inr (NFloat (dmul x y)))"
| "num_mul (NFloat x) (NInt b) =
     (case to_float b of Inl e \<Rightarrow> Inl e | Inr y \<Rightarrow> Inr (NFloat (dmul x y)))"
| "num_mul (NFloat x) (NFloat y) = Inr (NFloat (dmul x y))"

fun num_add :: "pynum \<Rightarrow> pynum \<Rightarrow> error + pynum" where
  "num_add (NInt a) (NInt b) = Inr (NInt (a + b))"
| "num_add (NInt a) (NFloat y) =
     (case to_float a of Inl e \<Rightarrow> Inl e | Inr x \<Rightarrow> Inr (NFloat (dadd x y)))"
| "num_add (NFloat x) (NInt b) =
     (case to_float b of Inl e \<Rightarrow> Inl e | Inr y \<Rightarrow> Inr (NFloat (dadd x y)))"
| "num_add (NFloat x) (NFloat y) = Inr (NFloat (dadd x y))"

definition int_truediv :: "int \<Rightarrow> int \<Rightarrow> error + double" where
  "int_truediv a b =
     (if b = 0 then Inl ZeroDivisionError
      else case round_double (of_int a / of_int b) of Infinity s \<Rightarrow> Inl OverflowError | d \<Rightarrow> Inr d)"

text \<open>
  Python's \<^verbatim>\<open>int(x)\<close> truncates a float towards zero; it raises OverflowError on an
  infinity and ValueError on a NaN.
\<close>

definition py_int :: "rat \<Rightarrow> int" where
  "py_int r = (if 0 \<le> r then \<lfloor>r\<rfloor> else \<lceil>r\<rceil>)"

fun num_int :: "pynum \<Rightarrow> error + int" where
  "num_int (NInt i) = Inr i"
| "num_int (NFloat (Finite r)) = Inr (py_int r)"
| "num_int (NFloat (Infinity s)) = Inl OverflowError"
| "num_int (NFloat NaN) = Inl ValueError"

subsection \<open>Dictionaries and lists\<close>

text \<open>\<^verbatim>\<open>d[k]\<close>: KeyError when the key is missing.\<close>

definition getitem :: "dict \<Rightarrow> string \<Rightarrow> error + pyval" where
  "getitem d k = (case map_of d k of None \<Rightarrow> Inl KeyError | Some v \<Rightarrow> Inr v)"

text \<open>\<^verbatim>\<open>d[k] = v\<close>: overwrites in place, or appends a new entry.\<close>

definition setitem :: "dict \<Rightarrow> string \<Rightarrow> pyval \<Rightarrow> dict" where
  "setitem d k v = AList.update k v d"

text \<open>\<^verbatim>\<open>del d[k]\<close>: KeyError when the key is missing.\<close>

definition delitem :: "dict \<Rightarrow> string \<Rightarrow> error + dict" where
  "delitem d k = (if map_of d k = None then Inl KeyError else Inr (AList.delete k d))"

text \<open>\<^verbatim>\<open>v[k]\<close> on a value: only a dictionary can be subscripted by a string.\<close>

fun subscript :: "pyval \<Rightarrow> string \<Rightarrow> error + pyval" where
  "subscript (PDict d) k = getitem d k"
| "subscript _ k = Inl TypeError"

text \<open>
  A value used as a number in arithmetic: ints, floats and booleans are numbers, anything
  else raises TypeError.
\<close>

fun as_num :: "pyval \<Rightarrow> error + pynum" where
  "as_num (PInt i) = Inr (NInt i)"
| "as_num (PFloat r) = Inr (NFloat (Finite r))"
| "as_num (PBool b) = Inr (NInt (if b then 1 else 0))"
| "as_num _ = Inl TypeError"

text \<open>
  A value used as an integer. The model types \<^verbatim>\<open>Scouters.Min\<close> and \<^verbatim>\<open>max_scouters\<close> as
  integers, as the persisted format does; any other value there is a TypeError of the model.
\<close>

fun as_int :: "pyval \<Rightarrow> error + int" where
  "as_int (PInt i) = Inr i"
| "as_int (PBool b) = Inr (if b then 1 else 0)"
| "as_int _ = Inl TypeError"

text \<open>A coordinate tuple \<^verbatim>\<open>(x, y)\<close> and its unpacking \<^verbatim>\<open>(x, y) = v\<close>.\<close>

definition coord :: "int \<times> int \<Rightarrow> pyval" where
  "coord p = PTuple [PInt (fst p), PInt (snd p)]"

fun as_coord :: "pyval \<Rightarrow> error + (int \<times> int)" where
  "as_coord (PTuple [PInt x, PInt y]) = Inr (x, y)"
| "as_coord _ = Inl TypeError"

fun as_coords :: "pyval list \<Rightarrow> error + (int \<times> int) list" where
  "as_coords [] = Inr []"
| "as_coords (v # vs) =
     (case as_coord v of Inl e \<Rightarrow> Inl e
      | Inr p \<Rightarrow> (case as_coords vs of Inl e \<Rightarrow> Inl e | Inr ps \<Rightarrow> Inr (p # ps)))"

text \<open>\<^verbatim>\<open>xs.remove(v)\<close>: removes the first element equal to \<open>v\<close>, ValueError when there is none.\<close>

definition list_remove :: "'a \<Rightarrow> 'a list \<Rightarrow> error + 'a list" where
  "list_remove v xs = (if v \<in> set xs then Inr (remove1 v xs) else Inl ValueError)"

section \<open>The random source\<close>

text \<open>
  The module-level generator of Python's \<^verbatim>\<open>random\<close> is an infinite stream of raw draws.
  \<^verbatim>\<open>random.randrange(n)\<close> raises ValueError for \<open>n \<le> 0\<close>; otherwise it consumes one draw
  and returns a value of \<open>[0, n)\<close>, and every value of the range is the result of some draw.
\<close>

type_synonym rng = "nat \<Rightarrow> nat"

definition randrange :: "int \<Rightarrow> rng \<Rightarrow> error + (int \<times> rng)" where
  "randrange n r =
     (if n \<le> 0 then Inl ValueError else Inr (int (r 0) mod n, (\<lambda>i. r (Suc i))))"

section \<open>The board and the scouters (external collaborators)\<close>

text \<open>
  The board is consumed through its queries only. The aggregate queries
  \<^verbatim>\<open>get_blob_total()\<close> and \<^verbatim>\<open>get_cover()\<close> are fields of their own, as the board computes
  them itself.
\<close>

record board =
  width :: int
  height :: int
  has_food :: "int \<Rightarrow> int \<Rightarrow> bool"
  is_touched :: "int \<Rightarrow> int \<Rightarrow> bool"
  get_blob :: "int \<Rightarrow> int \<Rightarrow> rat"
  get_blob_total :: rat
  get_cover :: rat

text \<open>
  A scouter is an \<^verbatim>\<open>FSMAnt\<close> object: its position, the state of its own machine, and its
  identity \<open>sid\<close>. \<^verbatim>\<open>FSMAnt\<close> inherits Python's default equality, which is identity, so two
  scouter values are equal exactly when they are the same object.
\<close>

record scouter =
  sid :: nat
  ant_x :: int
  ant_y :: int
  ant_state :: nat

text \<open>
  What the manager calls but does not define: the constructor, \<^verbatim>\<open>move()\<close> and
  \<^verbatim>\<open>update()\<close> of \<^verbatim>\<open>FSMAnt\<close>, and \<^verbatim>\<open>Board.manage_blob\<close>. They are parameters. An ant's
  move may read the board and the knowledge, draw random numbers and change the board; it
  returns the ant's new position and machine state. The ant's identity is kept by the
  manager's model, not by the parameter.
\<close>

record ext =
  fsm_new :: "board \<Rightarrow> dict \<Rightarrow> int \<Rightarrow> int \<Rightarrow> nat"
  fsm_move :: "board \<Rightarrow> dict \<Rightarrow> rng \<Rightarrow> int \<times> int \<times> nat \<Rightarrow> (int \<times> int \<times> nat) \<times> board \<times> rng"
  fsm_update :: "board \<Rightarrow> dict \<Rightarrow> int \<times> int \<times> nat \<Rightarrow> nat \<times> board"
  manage_blob :: "pyval \<Rightarrow> pyval \<Rightarrow> board \<Rightarrow> board"

section \<open>The colony manager\<close>

text \<open>
  The fields of \<^verbatim>\<open>BlobManager\<close>, the shared random source, and the counter that gives each
  new \<^verbatim>\<open>FSMAnt\<close> object its identity.
\<close>

record manager =
  board :: board
  knowledge :: dict
  scouters :: "scouter list"
  rng :: rng
  next_id :: nat

text \<open>\<^verbatim>\<open>self.knowledge['food']\<close> read as a list of coordinates, and written back.\<close>

definition get_food :: "manager \<Rightarrow> error + (int \<times> int) list" where
  "get_food m =
     (case getitem (knowledge m) ''food'' of Inl e \<Rightarrow> Inl e
      | Inr (PList vs) \<Rightarrow> as_coords vs
      | Inr _ \<Rightarrow> Inl TypeError)"

definition set_food :: "(int \<times> int) list \<Rightarrow> manager \<Rightarrow> manager" where
  "set_food fs m = m\<lparr>knowledge := setitem (knowledge m) ''food'' (PList (map coord fs))\<rparr>"

text \<open>\<^verbatim>\<open>self.knowledge['max_scouters']\<close> read as an integer, and written back.\<close>

definition get_max :: "manager \<Rightarrow> error + int" where
  "get_max m =
     (case getitem (knowledge m) ''max_scouters'' of Inl e \<Rightarrow> Inl e | Inr v \<Rightarrow> as_int v)"

definition set_max :: "int \<Rightarrow> manager \<Rightarrow> manager" where
  "set_max n m = m\<lparr>knowledge := setitem (knowledge m) ''max_scouters'' (PInt n)\<rparr>"

subsection \<open>compute_max_scouters\<close>

text \<open>
  The nested lookups of \<^verbatim>\<open>self.knowledge["Computing"][...]\<close> and
  \<^verbatim>\<open>self.knowledge["Scouters"]["Min"]\<close>, in the order Python evaluates them.
\<close>

definition factor :: "manager \<Rightarrow> string \<Rightarrow> error + pynum" where
  "factor m k =
     (case getitem (knowledge m) ''Computing'' of Inl e \<Rightarrow> Inl e
      | Inr c \<Rightarrow> (case subscript c k of Inl e \<Rightarrow> Inl e | Inr v \<Rightarrow> as_num v))"

definition scouters_min :: "manager \<Rightarrow> error + int" where
  "scouters_min m =
     (case getitem (knowledge m) ''Scouters'' of Inl e \<Rightarrow> Inl e
      | Inr c \<Rightarrow> (case subscript c ''Min'' of Inl e \<Rightarrow> Inl e | Inr v \<Rightarrow> as_int v))"

text \<open>
  The statements of \<^verbatim>\<open>compute_max_scouters\<close>, operation by operation, in the order Python
  evaluates them: each factor is looked up and multiplied before the next one is looked
  up; the sum is multiplied by the product of the global factor and the quotient
  \<^verbatim>\<open>height * width / 100000\<close>; the minimum is looked up before the cast. The board's
  aggregates are floats, the number of known foods and the board's sides are ints.
\<close>

definition compute_max_scouters :: "manager \<Rightarrow> error + int" where
  "compute_max_scouters m =
     (case factor m ''Blob Size Factor'' of Inl e \<Rightarrow> Inl e | Inr bsf \<Rightarrow>
     (case num_mul bsf (NFloat (Finite (get_blob_total (board m)))) of Inl e \<Rightarrow> Inl e | Inr t1 \<Rightarrow>
     (case factor m ''Covering Factor'' of Inl e \<Rightarrow> Inl e | Inr cf \<Rightarrow>
     (case num_mul cf (NFloat (Finite (get_cover (board m)))) of Inl e \<Rightarrow> Inl e | Inr t2 \<Rightarrow>
     (case num_add t1 t2 of Inl e \<Rightarrow> Inl e | Inr s12 \<Rightarrow>
     (case factor m ''Known Foods Factor'' of Inl e \<Rightarrow> Inl e | Inr kff \<Rightarrow>
     (case get_food m of Inl e \<Rightarrow> Inl e | Inr fs \<Rightarrow>
     (case num_mul kff (NInt (int (length fs))) of Inl e \<Rightarrow> Inl e | Inr t3 \<Rightarrow>
     (case num_add s12 t3 of Inl e \<Rightarrow> Inl e | Inr total_scouters \<Rightarrow>
     (case factor m ''Global Factor'' of Inl e \<Rightarrow> Inl e | Inr gf \<Rightarrow>
     (case int_truediv (height (board m) * width (board m)) 100000 of Inl e \<Rightarrow> Inl e | Inr q \<Rightarrow>
     (case num_mul gf (NFloat q) of Inl e \<Rightarrow> Inl e | Inr x \<Rightarrow>
     (case num_mul total_scouters x of Inl e \<Rightarrow> Inl e | Inr total_scouters' \<Rightarrow>
     (case scouters_min m of Inl e \<Rightarrow> Inl e | Inr mn \<Rightarrow>
     (case num_int total_scouters' of Inl e \<Rightarrow> Inl e | Inr t \<Rightarrow>
        Inr (max mn t))))))))))))))))"

subsection \<open>find_blob_square\<close>

text \<open>The touched squares with their weights, in the order of the two nested loops.\<close>

definition availables :: "board \<Rightarrow> ((int \<times> int) \<times> rat) list" where
  "availables b =
     concat (map (\<lambda>x. map (\<lambda>y. ((x, y), get_blob b x y + 1))
                        (filter (\<lambda>y. is_touched b x y) [0..height b - 1]))
                 [0..width b - 1])"

definition total_blob :: "board \<Rightarrow> rat" where
  "total_blob b = sum_list (map snd (availables b))"

text \<open>
  The final loop: accumulate the weights and return the first square whose accumulated
  weight reaches the drawn index. Falling off the end of the loop returns Python's None.
\<close>

fun find_blob_square_loop :: "rat \<Rightarrow> int \<Rightarrow> ((int \<times> int) \<times> rat) list \<Rightarrow> (int \<times> int) option" where
  "find_blob_square_loop acc index_pond [] = None"
| "find_blob_square_loop acc index_pond ((square, qt) # rest) =
     (if acc + qt \<ge> of_int index_pond then Some square
      else find_blob_square_loop (acc + qt) index_pond rest)"

definition find_blob_square :: "board \<Rightarrow> rng \<Rightarrow> error + ((int \<times> int) option \<times> rng)" where
  "find_blob_square b r =
     (if length (availables b) = 0 then Inr (Some (0, 0), r)
      else case randrange (py_int (total_blob b)) r of Inl e \<Rightarrow> Inl e
           | Inr (index_pond, r') \<Rightarrow> Inr (find_blob_square_loop 0 index_pond (availables b), r'))"

subsection \<open>add_scouter, remove_scouter\<close>

text \<open>
  \<^verbatim>\<open>FSMAnt(self.board, self.knowledge, x, y)\<close> appended to the list. Unpacking the None that
  \<^verbatim>\<open>find_blob_square\<close> returns when its loop ends without a square is a TypeError.
\<close>

definition new_scouter :: "ext \<Rightarrow> manager \<Rightarrow> int \<times> int \<Rightarrow> scouter" where
  "new_scouter e m p =
     \<lparr>sid = next_id m, ant_x = fst p, ant_y = snd p,
      ant_state = fsm_new e (board m) (knowledge m) (fst p) (snd p)\<rparr>"

definition spawn_at :: "ext \<Rightarrow> manager \<Rightarrow> int \<times> int \<Rightarrow> rng \<Rightarrow> manager" where
  "spawn_at e m p r =
     m\<lparr>scouters := scouters m @ [new_scouter e m p], rng := r, next_id := Suc (next_id m)\<rparr>"

definition add_scouter :: "ext \<Rightarrow> manager \<Rightarrow> error + manager" where
  "add_scouter e m =
     (case get_max m of Inl er \<Rightarrow> Inl er | Inr mx \<Rightarrow>
     (if int (length (scouters m)) < mx then
        (case get_food m of Inl er \<Rightarrow> Inl er | Inr fs \<Rightarrow>
        (if length fs \<noteq> 0 then
           (case randrange (int (length fs)) (rng m) of Inl er \<Rightarrow> Inl er
            | Inr (index, r') \<Rightarrow> Inr (spawn_at e m (fs ! nat index) r'))
         else
           (case find_blob_square (board m) (rng m) of Inl er \<Rightarrow> Inl er
            | Inr (None, r') \<Rightarrow> Inl TypeError
            | Inr (Some p, r') \<Rightarrow> Inr (spawn_at e m p r'))))
      else Inr m))"

text \<open>\<^verbatim>\<open>del self.scouters[nbr]\<close> with \<open>nbr\<close> drawn from \<^verbatim>\<open>randrange(len(self.scouters))\<close>.\<close>

definition remove_scouter :: "manager \<Rightarrow> error + manager" where
  "remove_scouter m =
     (case randrange (int (length (scouters m))) (rng m) of Inl er \<Rightarrow> Inl er
      | Inr (nbr, r') \<Rightarrow>
          Inr (m\<lparr>scouters := take (nat nbr) (scouters m) @ drop (Suc (nat nbr)) (scouters m),
                 rng := r'\<rparr>))"

subsection \<open>food_discovered, food_destroyed, reset\<close>

definition food_discovered :: "int \<Rightarrow> int \<Rightarrow> manager \<Rightarrow> error + manager" where
  "food_discovered x y m =
     (case get_food m of Inl e \<Rightarrow> Inl e | Inr fs \<Rightarrow> Inr (set_food (fs @ [(x, y)]) m))"

definition food_destroyed :: "int \<Rightarrow> int \<Rightarrow> manager \<Rightarrow> error + manager" where
  "food_destroyed x y m =
     (case get_food m of Inl e \<Rightarrow> Inl e
      | Inr fs \<Rightarrow> (case list_remove (x, y) fs of Inl e \<Rightarrow> Inl e | Inr fs' \<Rightarrow> Inr (set_food fs' m)))"

text \<open>
  The first loop of \<^verbatim>\<open>reset\<close> walks a copy of the scouter list and removes from the live
  list each scouter standing on \<open>(x, y)\<close>; the second walks a copy of the food list and,
  for each entry equal to \<open>(x, y)\<close>, removes it from the live list and decrements
  \<^verbatim>\<open>max_scouters\<close>.
\<close>

fun reset_scouters :: "int \<Rightarrow> int \<Rightarrow> scouter list \<Rightarrow> scouter list \<Rightarrow> error + scouter list" where
  "reset_scouters x y [] live = Inr live"
| "reset_scouters x y (s # copy) live =
     (if ant_x s = x \<and> ant_y s = y
      then (case list_remove s live of Inl e \<Rightarrow> Inl e | Inr live' \<Rightarrow> reset_scouters x y copy live')
      else reset_scouters x y copy live)"

fun reset_food :: "int \<Rightarrow> int \<Rightarrow> (int \<times> int) list \<Rightarrow> manager \<Rightarrow> error + manager" where
  "reset_food x y [] m = Inr m"
| "reset_food x y (food # copy) m =
     (if food = (x, y)
      then (case get_food m of Inl e \<Rightarrow> Inl e | Inr fs \<Rightarrow>
           (case list_remove food fs of Inl e \<Rightarrow> Inl e | Inr fs' \<Rightarrow>
           (case get_max (set_food fs' m) of Inl e \<Rightarrow> Inl e | Inr mx \<Rightarrow>
              reset_food x y copy (set_max (mx - 1) (set_food fs' m)))))
      else reset_food x y copy m)"

definition reset :: "int \<Rightarrow> int \<Rightarrow> manager \<Rightarrow> error + manager" where
  "reset x y m =
     (case reset_scouters x y (scouters m) (scouters m) of Inl e \<Rightarrow> Inl e | Inr live \<Rightarrow>
     (case get_food (m\<lparr>scouters := live\<rparr>) of Inl e \<Rightarrow> Inl e | Inr fs \<Rightarrow>
        reset_food x y fs (m\<lparr>scouters := live\<rparr>)))"

subsection \<open>move: one tick\<close>

text \<open>
  The first loop of \<^verbatim>\<open>move\<close>: each scouter is asked to move; one whose position did not
  change is queued in \<open>deads\<close>; one that moved onto a food square not yet known reports the
  food, and is then updated. The function returns the scouters as they are after the loop,
  the queue, and the manager with the board, the knowledge and the random source as the
  loop left them.
\<close>

fun move_scouters :: "ext \<Rightarrow> scouter list \<Rightarrow> manager \<Rightarrow> error + (scouter list \<times> scouter list \<times> manager)" where
  "move_scouters e [] m = Inr ([], [], m)"
| "move_scouters e (s # rest) m =
     (case fsm_move e (board m) (knowledge m) (rng m) (ant_x s, ant_y s, ant_state s) of
        ((x', y', st'), b', r') \<Rightarrow>
          (if (ant_x s, ant_y s) = (x', y') then
             (case move_scouters e rest (m\<lparr>board := b', rng := r'\<rparr>) of Inl er \<Rightarrow> Inl er
              | Inr (ss, deads, m') \<Rightarrow>
                  Inr (s\<lparr>ant_state := st'\<rparr> # ss, s\<lparr>ant_state := st'\<rparr> # deads, m'))
           else
             (case (if has_food b' x' y' then
                      (case get_food (m\<lparr>board := b', rng := r'\<rparr>) of Inl er \<Rightarrow> Inl er
                       | Inr fs \<Rightarrow>
                           (if (x', y') \<notin> set fs
                            then food_discovered x' y' (m\<lparr>board := b', rng := r'\<rparr>)
                            else Inr (m\<lparr>board := b', rng := r'\<rparr>)))
                    else Inr (m\<lparr>board := b', rng := r'\<rparr>)) of
                Inl er \<Rightarrow> Inl er
              | Inr m1 \<Rightarrow>
                  (case fsm_update e (board m1) (knowledge m1) (x', y', st') of
                     (st2, b2) \<Rightarrow>
                       (case move_scouters e rest (m1\<lparr>board := b2\<rparr>) of Inl er \<Rightarrow> Inl er
                        | Inr (ss, deads, m') \<Rightarrow>
                            Inr (s\<lparr>ant_x := x', ant_y := y', ant_state := st2\<rparr> # ss, deads, m'))))))"

text \<open>\<^verbatim>\<open>for _ in range(n): op()\<close>.\<close>

fun repeat_op :: "nat \<Rightarrow> (manager \<Rightarrow> error + manager) \<Rightarrow> manager \<Rightarrow> error + manager" where
  "repeat_op 0 f m = Inr m"
| "repeat_op (Suc n) f m = (case f m of Inl er \<Rightarrow> Inl er | Inr m' \<Rightarrow> repeat_op n f m')"

text \<open>\<^verbatim>\<open>for dead in deads: self.scouters.remove(dead); self.add_scouter()\<close>.\<close>

fun replace_deads :: "ext \<Rightarrow> scouter list \<Rightarrow> manager \<Rightarrow> error + manager" where
  "replace_deads e [] m = Inr m"
| "replace_deads e (dead # deads) m =
     (case list_remove dead (scouters m) of Inl er \<Rightarrow> Inl er
      | Inr ss \<Rightarrow>
          (case add_scouter e (m\<lparr>scouters := ss\<rparr>) of Inl er \<Rightarrow> Inl er
           | Inr m' \<Rightarrow> replace_deads e deads m'))"

text \<open>The grow or shrink pass for a difference \<open>diff\<close> between target and population.\<close>

definition reconcile :: "ext \<Rightarrow> int \<Rightarrow> manager \<Rightarrow> error + manager" where
  "reconcile e diff m =
     (if diff > 0 then repeat_op (nat diff) (add_scouter e) m
      else if diff < 0 then repeat_op (nat (- diff)) remove_scouter m
      else Inr m)"

text \<open>
  The tick. The comparison of the new target with the cached one only decides whether a
  line is printed; it reads \<^verbatim>\<open>self.knowledge['max_scouters']\<close>, which is all the model
  keeps of it.
\<close>

definition move :: "ext \<Rightarrow> manager \<Rightarrow> error + manager" where
  "move e m =
     (case move_scouters e (scouters m) m of Inl er \<Rightarrow> Inl er | Inr (ss, deads, m1) \<Rightarrow>
     (case compute_max_scouters (m1\<lparr>scouters := ss\<rparr>) of Inl er \<Rightarrow> Inl er | Inr new_max \<Rightarrow>
     (case getitem (knowledge m1) ''max_scouters'' of Inl er \<Rightarrow> Inl er | Inr old_max \<Rightarrow>
     (case reconcile e (new_max - int (length ss)) (set_max new_max (m1\<lparr>scouters := ss\<rparr>)) of
        Inl er \<Rightarrow> Inl er | Inr m2 \<Rightarrow>
     (case replace_deads e deads m2 of Inl er \<Rightarrow> Inl er | Inr m3 \<Rightarrow>
     (case getitem (knowledge m3) ''Global Decrease'' of Inl er \<Rightarrow> Inl er | Inr gd \<Rightarrow>
     (case getitem (knowledge m3) ''Remaining Blob on Food'' of Inl er \<Rightarrow> Inl er | Inr rb \<Rightarrow>
        Inr (m3\<lparr>board := manage_blob e gd rb (board m3)\<rparr>))))))))"

subsection \<open>Construction\<close>

text \<open>
  What \<^verbatim>\<open>open(knowledge, 'r')\<close> and \<^verbatim>\<open>json.load\<close> make of the persisted source: the file
  cannot be opened, or it is not JSON, or it holds a JSON object.
\<close>

datatype source = Unreadable | Malformed | Loaded dict

text \<open>The scan of the whole board for squares that bear food and are touched.\<close>

definition scan_food :: "board \<Rightarrow> (int \<times> int) list" where
  "scan_food b =
     concat (map (\<lambda>x. map (\<lambda>y. (x, y))
                        (filter (\<lambda>y. has_food b x y \<and> is_touched b x y) [0..height b - 1]))
                 [0..width b - 1])"

text \<open>
  \<^verbatim>\<open>while len(self.scouters) < self.knowledge['max_scouters']: self.add_scouter()\<close>.
  Each successful call adds one scouter, so the distance to the target is a measure.
\<close>

function init_loop :: "ext \<Rightarrow> manager \<Rightarrow> error + manager" where
  "init_loop e m =
     (case get_max m of Inl er \<Rightarrow> Inl er
      | Inr mx \<Rightarrow>
          (if int (length (scouters m)) < mx
           then (case add_scouter e m of Inl er \<Rightarrow> Inl er | Inr m' \<Rightarrow> init_loop e m')
           else Inr m))"
  by pat_completeness auto
termination
proof (relation "measure (\<lambda>(e, m). nat ((case get_max m of Inl er \<Rightarrow> 0 | Inr mx \<Rightarrow> mx)
                                          - int (length (scouters m))))")
  show "wf (measure (\<lambda>(e, m). nat ((case get_max m of Inl er \<Rightarrow> 0 | Inr mx \<Rightarrow> mx)
                                          - int (length (scouters m)))))"
    by simp
next
  fix e m mx m'
  assume "get_max m = Inr mx" "int (length (scouters m)) < mx" "add_scouter e m = Inr m'"
  then show "((e, m'), (e, m)) \<in> measure (\<lambda>(e, m). nat ((case get_max m of Inl er \<Rightarrow> 0 | Inr mx \<Rightarrow> mx)
                                          - int (length (scouters m))))"
    by (auto simp: add_scouter_def spawn_at_def get_max_def
             split: sum.splits if_splits option.splits prod.splits)
qed

definition init :: "ext \<Rightarrow> board \<Rightarrow> source \<Rightarrow> rng \<Rightarrow> error + manager" where
  "init e b src r =
     (case src of
        Unreadable \<Rightarrow> Inl OSError
      | Malformed \<Rightarrow> Inl JSONDecodeError
      | Loaded d \<Rightarrow>
          (case compute_max_scouters
                  (set_food (scan_food b) \<lparr>board = b, knowledge = d, scouters = [], rng = r, next_id = 0\<rparr>) of
             Inl er \<Rightarrow> Inl er
           | Inr mx \<Rightarrow>
               init_loop e (set_max mx
                  (set_food (scan_food b) \<lparr>board = b, knowledge = d, scouters = [], rng = r, next_id = 0\<rparr>))))"

section \<open>save: serialising the knowledge\<close>

text \<open>
  \<^verbatim>\<open>json.dumps(d, indent=4, sort_keys=True)\<close>, as the encoder of the standard library writes
  it: an empty container is \<^verbatim>\<open>[]\<close> or \<^verbatim>\<open>{}\<close>; otherwise each item stands on a line
  of its own, indented by four spaces per nesting level, items are separated by a comma, a
  key and its value by a colon and a space, and the entries of a dictionary are sorted by
  key. A tuple is written as a list. Strings are sequences of code points below 256 and are
  written with \<^verbatim>\<open>ensure_ascii\<close>. The text of a float is a parameter \<open>fr\<close>, since the
  model's rationals carry no decimal representation.
\<close>

definition hex_digit :: "nat \<Rightarrow> char" where
  "hex_digit n = ''0123456789abcdef'' ! (n mod 16)"

definition esc_char :: "char \<Rightarrow> string" where
  "esc_char c =
     (if c = CHR 0x22 then [CHR 0x5C, CHR 0x22]
      else if c = CHR 0x5C then [CHR 0x5C, CHR 0x5C]
      else if c = CHR 0x0A then [CHR 0x5C, CHR ''n'']
      else if c = CHR 0x0D then [CHR 0x5C, CHR ''r'']
      else if c = CHR 0x09 then [CHR 0x5C, CHR ''t'']
      else if c = CHR 0x08 then [CHR 0x5C, CHR ''b'']
      else if c = CHR 0x0C then [CHR 0x5C, CHR ''f'']
      else if 32 \<le> (of_char c :: nat) \<and> (of_char c :: nat) \<le> 126 then [c]
      else [CHR 0x5C, CHR ''u'', CHR ''0'', CHR ''0'',
            hex_digit (of_char c div 16), hex_digit (of_char c)])"

definition encode_str :: "string \<Rightarrow> string" where
  "encode_str s = CHR 0x22 # concat (map esc_char s) @ [CHR 0x22]"

fun show_nat :: "nat \<Rightarrow> string" where
  "show_nat n = (if n < 10 then [hex_digit n] else show_nat (n div 10) @ [hex_digit (n mod 10)])"

definition show_int :: "int \<Rightarrow> string" where
  "show_int i = (if i < 0 then CHR ''-'' # show_nat (nat (- i)) else show_nat (nat i))"

definition newline_indent :: "nat \<Rightarrow> string" where
  "newline_indent lvl = CHR 0x0A # replicate (4 * lvl) CHR '' ''"

fun join :: "string \<Rightarrow> string list \<Rightarrow> string" where
  "join sep [] = []"
| "join sep [x] = x"
| "join sep (x # y # ys) = x @ sep @ join sep (y # ys)"

definition brackets :: "string \<Rightarrow> string \<Rightarrow> nat \<Rightarrow> string list \<Rightarrow> string" where
  "brackets l r lvl items =
     (if items = [] then l @ r
      else l @ newline_indent (Suc lvl) @ join ('','' @ newline_indent (Suc lvl)) items
             @ newline_indent lvl @ r)"

function dumps :: "(rat \<Rightarrow> string) \<Rightarrow> nat \<Rightarrow> pyval \<Rightarrow> string" where
  "dumps fr lvl PNone = ''null''"
| "dumps fr lvl (PBool b) = (if b then ''true'' else ''false'')"
| "dumps fr lvl (PInt i) = show_int i"
| "dumps fr lvl (PFloat r) = fr r"
| "dumps fr lvl (PStr s) = encode_str s"
| "dumps fr lvl (PList vs) = brackets ''['' '']'' lvl (map (dumps fr (Suc lvl)) vs)"
| "dumps fr lvl (PTuple vs) = brackets ''['' '']'' lvl (map (dumps fr (Suc lvl)) vs)"
| "dumps fr lvl (PDict d) =
     brackets ''{'' ''}'' lvl
       (map (\<lambda>kv. encode_str (fst kv) @ '': '' @ dumps fr (Suc lvl) (snd kv)) (sort_key fst d))"
  by pat_completeness auto
termination
proof (relation "measure (\<lambda>(fr, lvl, v). size v)")
  show "wf (measure (\<lambda>(fr, lvl, v). size v))"
    by simp
next
  fix fr :: "rat \<Rightarrow> string" and lvl :: nat and vs :: "pyval list" and x
  assume "x \<in> set vs"
  then have "size x < size (PList vs)"
    by (induction vs) auto
  then show "((fr, Suc lvl, x), (fr, lvl, PList vs)) \<in> measure (\<lambda>(fr, lvl, v). size v)"
    by simp
next
  fix fr :: "rat \<Rightarrow> string" and lvl :: nat and vs :: "pyval list" and x
  assume "x \<in> set vs"
  then have "size x < size (PTuple vs)"
    by (induction vs) auto
  then show "((fr, Suc lvl, x), (fr, lvl, PTuple vs)) \<in> measure (\<lambda>(fr, lvl, v). size v)"
    by simp
next
  fix fr :: "rat \<Rightarrow> string" and lvl :: nat and d :: dict and kv
  assume "kv \<in> set (sort_key fst d)"
  then have "kv \<in> set d"
    by simp
  then have "size (snd kv) < size (PDict d)"
    by (induction d) auto
  then show "((fr, Suc lvl, snd kv), (fr, lvl, PDict d)) \<in> measure (\<lambda>(fr, lvl, v). size v)"
    by simp
qed

text \<open>
  \<^verbatim>\<open>save\<close>: the two derived entries are deleted from a copy of the knowledge and the rest
  is serialised.
\<close>

definition save :: "(rat \<Rightarrow> string) \<Rightarrow> manager \<Rightarrow> error + string" where
  "save fr m =
     (case delitem (knowledge m) ''food'' of Inl e \<Rightarrow> Inl e | Inr d1 \<Rightarrow>
     (case delitem d1 ''max_scouters'' of Inl e \<Rightarrow> Inl e | Inr d2 \<Rightarrow>
        Inr (dumps fr 0 (PDict d2))))"

subsection \<open>save and the identity of the knowledge dictionary\<close>

text \<open>
  Whether \<^verbatim>\<open>save\<close> changes the manager depends on what \<^verbatim>\<open>d = self.knowledge.copy()\<close> and
  \<^verbatim>\<open>del d[...]\<close> do to the dictionary object that \<^verbatim>\<open>self.knowledge\<close> refers to. Here
  dictionaries live in a heap, at references; the manager object holds a reference to its
  knowledge; \<^verbatim>\<open>copy()\<close> allocates a new dictionary with the same entries and \<^verbatim>\<open>del\<close>
  changes the dictionary at the reference it is given. The copy is shallow: the values of
  the two dictionaries are shared, and \<^verbatim>\<open>save\<close> changes none of them.
\<close>

type_synonym ref = nat

record heap =
  dict_at :: "ref \<Rightarrow> dict"
  fresh :: ref

record manager_obj =
  board_of :: board
  knowledge_ref :: ref
  scouters_of :: "scouter list"

definition dict_copy :: "ref \<Rightarrow> heap \<Rightarrow> ref \<times> heap" where
  "dict_copy a h =
     (fresh h, h\<lparr>dict_at := (dict_at h)(fresh h := dict_at h a), fresh := Suc (fresh h)\<rparr>)"

definition dict_del :: "ref \<Rightarrow> string \<Rightarrow> heap \<Rightarrow> error + heap" where
  "dict_del a k h =
     (case delitem (dict_at h a) k of Inl e \<Rightarrow> Inl e
      | Inr d \<Rightarrow> Inr (h\<lparr>dict_at := (dict_at h)(a := d)\<rparr>))"

text \<open>
  \<^verbatim>\<open>save\<close> on the heap returns the text or the exception, the manager object and the heap
  as the call leaves them.
\<close>

definition save_obj :: "(rat \<Rightarrow> string) \<Rightarrow> manager_obj \<Rightarrow> heap \<Rightarrow> (error + string) \<times> manager_obj \<times> heap" where
  "save_obj fr self h =
     (case dict_copy (knowledge_ref self) h of
        (d, h1) \<Rightarrow>
          (case dict_del d ''food'' h1 of Inl e \<Rightarrow> (Inl e, self, h1) | Inr h2 \<Rightarrow>
          (case dict_del d ''max_scouters'' h2 of Inl e \<Rightarrow> (Inl e, self, h2) | Inr h3 \<Rightarrow>
             (Inr (dumps fr 0 (PDict (dict_at h3 d))), self, h3))))"

text \<open>The manager that a manager object and a heap stand for.\<close>

definition manager_of :: "manager_obj \<Rightarrow> heap \<Rightarrow> rng \<Rightarrow> nat \<Rightarrow> manager" where
  "manager_of self h r n =
     \<lparr>board = board_of self, knowledge = dict_at h (knowledge_ref self),
      scouters = scouters_of self, rng = r, next_id = n\<rparr>"

section \<open>Predicates and concrete inputs of the verified properties\<close>

subsection \<open>Boards\<close>

text \<open>
  A touched square of the board, within its bounds; and the contract of the board's
  \<^verbatim>\<open>get_blob\<close>, which returns a non-negative number.
\<close>

definition touched_square :: "board \<Rightarrow> int \<times> int \<Rightarrow> bool" where
  "touched_square b p =
     (0 \<le> fst p \<and> fst p < width b \<and> 0 \<le> snd p \<and> snd p < height b \<and> is_touched b (fst p) (snd p))"

definition blob_nonneg :: "board \<Rightarrow> bool" where
  "blob_nonneg b =
     (\<forall>x \<in> {0..<width b}. \<forall>y \<in> {0..<height b}. is_touched b x y \<longrightarrow> 0 \<le> get_blob b x y)"

text \<open>A 3 by 2 board with five touched squares of blob mass 0, and a blank 3 by 2 board.\<close>

definition board5 :: board where
  "board5 = \<lparr>width = 3, height = 2, has_food = (\<lambda>x y. False), is_touched = (\<lambda>x y. x + y \<noteq> 0),
              get_blob = (\<lambda>x y. 0), get_blob_total = 0, get_cover = 5\<rparr>"

definition blank_board :: board where
  "blank_board = \<lparr>width = 3, height = 2, has_food = (\<lambda>x y. False), is_touched = (\<lambda>x y. False),
                   get_blob = (\<lambda>x y. 0), get_blob_total = 0, get_cover = 0\<rparr>"

subsection \<open>Managers\<close>

text \<open>Sequencing of calls that may raise.\<close>

definition and_then :: "error + 'a \<Rightarrow> ('a \<Rightarrow> error + 'b) \<Rightarrow> error + 'b" where
  "and_then r f = (case r of Inl e \<Rightarrow> Inl e | Inr v \<Rightarrow> f v)"

text \<open>
  \<open>same_but_food m' m\<close>: the two managers differ at most in the value stored under
  \<^verbatim>\<open>'food'\<close>; \<open>same_but_knowledge m' m\<close>: they differ at most in the knowledge.
\<close>

definition same_but_food :: "manager \<Rightarrow> manager \<Rightarrow> bool" where
  "same_but_food m' m =
     (board m' = board m \<and> scouters m' = scouters m \<and> rng m' = rng m \<and> next_id m' = next_id m
      \<and> map (\<lambda>kv. if fst kv = ''food'' then (fst kv, PNone) else kv) (knowledge m')
        = map (\<lambda>kv. if fst kv = ''food'' then (fst kv, PNone) else kv) (knowledge m))"

definition same_but_knowledge :: "manager \<Rightarrow> manager \<Rightarrow> bool" where
  "same_but_knowledge m' m =
     (board m' = board m \<and> scouters m' = scouters m \<and> rng m' = rng m \<and> next_id m' = next_id m)"

definition at_square :: "int \<Rightarrow> int \<Rightarrow> scouter \<Rightarrow> bool" where
  "at_square x y s = (ant_x s = x \<and> ant_y s = y)"

text \<open>
  Collaborators whose ants never move and whose board never changes; a knowledge with
  \<^verbatim>\<open>Scouters.Min\<close> 2 and every \<^verbatim>\<open>Computing\<close> factor 0 but \<^verbatim>\<open>Global Factor\<close> 1; and a manager
  on \<open>board5\<close> that knows two foods and has three scouters, two of them on \<open>(1, 0)\<close>.
\<close>

definition ext0 :: ext where
  "ext0 = \<lparr>fsm_new = (\<lambda>b k x y. 0), fsm_move = (\<lambda>b k r st. (st, b, r)),
           fsm_update = (\<lambda>b k st. (snd (snd st), b)), manage_blob = (\<lambda>gd rb b. b)\<rparr>"

definition knowledge0 :: dict where
  "knowledge0 =
     [(''Global Decrease'', PFloat (1 / 8)),
      (''Remaining Blob on Food'', PInt 50),
      (''Computing'', PDict [(''Blob Size Factor'', PInt 0), (''Covering Factor'', PInt 0),
                             (''Known Foods Factor'', PInt 0), (''Global Factor'', PInt 1)]),
      (''Scouters'', PDict [(''Min'', PInt 2)])]"

definition manager1 :: manager where
  "manager1 =
     \<lparr>board = board5,
      knowledge = knowledge0 @ [(''food'', PList [coord (1, 0), coord (2, 1)]), (''max_scouters'', PInt 3)],
      scouters = [\<lparr>sid = 0, ant_x = 1, ant_y = 0, ant_state = 0\<rparr>,
                  \<lparr>sid = 1, ant_x = 2, ant_y = 1, ant_state = 0\<rparr>,
                  \<lparr>sid = 2, ant_x = 1, ant_y = 0, ant_state = 0\<rparr>],
      rng = (\<lambda>i. 0), next_id = 3\<rparr>"

subsection \<open>The population target\<close>

text \<open>
  The formula of the specification, in its own words and over exact arithmetic: \<open>F\<close>
  is the weighted sum of total blob mass, covered area and number of known foods, times
  the global factor, times the board area over 100000.
\<close>

definition spec_F :: "board \<Rightarrow> nat \<Rightarrow> rat \<Rightarrow> rat \<Rightarrow> rat \<Rightarrow> rat \<Rightarrow> rat" where
  "spec_F b n bsf cf kff gf =
     (bsf * get_blob_total b + cf * get_cover b + kff * of_nat n) * gf
       * (of_int (height b) * of_int (width b) / 100000)"

text \<open>
  The same formula in Python's arithmetic: every product, sum and quotient is rounded to
  a double, the weighted sum is multiplied by the product of the global factor and the
  scaled area, and a conversion can raise.
\<close>

definition double_F :: "board \<Rightarrow> nat \<Rightarrow> pynum \<Rightarrow> pynum \<Rightarrow> pynum \<Rightarrow> pynum \<Rightarrow> error + pynum" where
  "double_F b n bsf cf kff gf =
     and_then (num_mul bsf (NFloat (Finite (get_blob_total b)))) (\<lambda>mass.
     and_then (num_mul cf (NFloat (Finite (get_cover b)))) (\<lambda>area.
     and_then (num_add mass area) (\<lambda>s.
     and_then (num_mul kff (NInt (int n))) (\<lambda>foods.
     and_then (num_add s foods) (\<lambda>weighted.
     and_then (int_truediv (height b * width b) 100000) (\<lambda>q.
     and_then (num_mul gf (NFloat q)) (\<lambda>scale.
       num_mul weighted scale)))))))"

text \<open>
  The scenario of the specification: a blank 10 by 10 board and the knowledge
  \<open>knowledge0\<close>; and a 570 by 100 board of total blob mass 100, with a knowledge whose
  \<^verbatim>\<open>Blob Size Factor\<close> and \<^verbatim>\<open>Global Factor\<close> are 1, the other factors 0 and the minimum 2.
\<close>

definition board10 :: board where
  "board10 = \<lparr>width = 10, height = 10, has_food = (\<lambda>x y. False), is_touched = (\<lambda>x y. False),
               get_blob = (\<lambda>x y. 0), get_blob_total = 0, get_cover = 0\<rparr>"

definition manager10 :: manager where
  "manager10 =
     \<lparr>board = board10, knowledge = knowledge0 @ [(''food'', PList []), (''max_scouters'', PInt 2)],
      scouters = [], rng = (\<lambda>i. 0), next_id = 0\<rparr>"

definition board570 :: board where
  "board570 = \<lparr>width = 570, height = 100, has_food = (\<lambda>x y. False),
                is_touched = (\<lambda>x y. x = 0 \<and> y = 0),
                get_blob = (\<lambda>x y. if x = 0 \<and> y = 0 then 100 else 0),
                get_blob_total = 100, get_cover = 1\<rparr>"

definition knowledge570 :: dict where
  "knowledge570 =
     [(''Global Decrease'', PFloat (1 / 8)),
      (''Remaining Blob on Food'', PInt 50),
      (''Computing'', PDict [(''Blob Size Factor'', PInt 1), (''Covering Factor'', PInt 0),
                             (''Known Foods Factor'', PInt 0), (''Global Factor'', PInt 1)]),
      (''Scouters'', PDict [(''Min'', PInt 2)])]"

definition manager570 :: manager where
  "manager570 =
     \<lparr>board = board570, knowledge = knowledge570 @ [(''food'', PList []), (''max_scouters'', PInt 2)],
      scouters = [], rng = (\<lambda>i. 0), next_id = 0\<rparr>"

subsection \<open>Weighted sampling\<close>

text \<open>A 2 by 1 board with touched squares A = \<open>(0, 0)\<close> of blob mass 2 and B = \<open>(1, 0)\<close> of blob mass 0.\<close>

definition board_AB :: board where
  "board_AB = \<lparr>width = 2, height = 1, has_food = (\<lambda>x y. False), is_touched = (\<lambda>x y. True),
               get_blob = (\<lambda>x y. if x = 0 then 2 else 0), get_blob_total = 2, get_cover = 2\<rparr>"

subsection \<open>Ticks and construction\<close>

text \<open>What a scenario observes of a manager: its scouters and its cached target.\<close>

definition observe :: "manager \<Rightarrow> error + ((nat \<times> int \<times> int) list \<times> (error + int))" where
  "observe m = Inr (map (\<lambda>s. (sid s, ant_x s, ant_y s)) (scouters m), get_max m)"

text \<open>
  Collaborators whose ants never move and whose board loses half of its blob at each decay;
  a 2 by 1 board of total blob mass 2; a knowledge under which the target is the total blob
  mass on that board, with minimum 1; and a random source.
\<close>

definition ext_decay :: ext where
  "ext_decay = \<lparr>fsm_new = (\<lambda>b k x y. 0), fsm_move = (\<lambda>b k r st. (st, b, r)),
                fsm_update = (\<lambda>b k st. (snd (snd st), b)),
                manage_blob = (\<lambda>gd rb b. b\<lparr>get_blob := (\<lambda>x y. get_blob b x y / 2),
                                               get_blob_total := get_blob_total b / 2\<rparr>)\<rparr>"

definition board_decay :: board where
  "board_decay = \<lparr>width = 2, height = 1, has_food = (\<lambda>x y. False), is_touched = (\<lambda>x y. True),
               get_blob = (\<lambda>x y. if x = 0 then 0 else 2), get_blob_total = 2, get_cover = 2\<rparr>"

definition knowledge_decay :: dict where
  "knowledge_decay =
     [(''Global Decrease'', PFloat (1 / 2)),
      (''Remaining Blob on Food'', PInt 0),
      (''Computing'', PDict [(''Blob Size Factor'', PInt 1), (''Covering Factor'', PInt 0),
                             (''Known Foods Factor'', PInt 0), (''Global Factor'', PInt 50000)]),
      (''Scouters'', PDict [(''Min'', PInt 1)])]"

definition rng_decay :: rng where
  "rng_decay = (\<lambda>i. if i = 3 then 2 else 0)"

text \<open>
  The fields of the persisted knowledge that the code reads: a top-level key, and a key of
  a nested dictionary. The constructor reads the nested ones, the tick the two others.
\<close>

definition has_key :: "dict \<Rightarrow> string \<Rightarrow> bool" where
  "has_key d k = (map_of d k \<noteq> None)"

definition has_nested :: "dict \<Rightarrow> string \<times> string \<Rightarrow> bool" where
  "has_nested d p = (case map_of d (fst p) of Some (PDict c) \<Rightarrow> has_key c (snd p) | _ \<Rightarrow> False)"

definition required_at_init :: "(string \<times> string) list" where
  "required_at_init =
     [(''Computing'', ''Blob Size Factor''), (''Computing'', ''Covering Factor''),
      (''Computing'', ''Known Foods Factor''), (''Computing'', ''Global Factor''),
      (''Scouters'', ''Min'')]"

definition required_at_move :: "string list" where
  "required_at_move = [''Global Decrease'', ''Remaining Blob on Food'']"

text \<open>
  A failure of \<^verbatim>\<open>compute_max_scouters\<close> on the knowledge: a missing key, a value of the
  wrong type, or an int too large for a float.
\<close>

definition config_error :: "error + 'a \<Rightarrow> bool" where
  "config_error r = (r = Inl KeyError \<or> r = Inl TypeError \<or> r = Inl OverflowError)"

text \<open>
  A knowledge without \<^verbatim>\<open>Global Decrease\<close>, a manager that holds it, and a knowledge
  without \<^verbatim>\<open>Scouters.Min\<close>.
\<close>

definition knowledge_no_decrease :: dict where
  "knowledge_no_decrease =
     [(''Remaining Blob on Food'', PInt 50),
      (''Computing'', PDict [(''Blob Size Factor'', PInt 0), (''Covering Factor'', PInt 0),
                             (''Known Foods Factor'', PInt 0), (''Global Factor'', PInt 1)]),
      (''Scouters'', PDict [(''Min'', PInt 2)])]"

definition knowledge_no_min :: dict where
  "knowledge_no_min =
     [(''Global Decrease'', PFloat (1 / 8)),
      (''Remaining Blob on Food'', PInt 50),
      (''Computing'', PDict [(''Blob Size Factor'', PInt 0), (''Covering Factor'', PInt 0),
                             (''Known Foods Factor'', PInt 0), (''Global Factor'', PInt 1)]),
      (''Scouters'', PDict [])]"

definition manager_no_decrease :: manager where
  "manager_no_decrease =
     \<lparr>board = board5,
      knowledge = knowledge_no_decrease @ [(''food'', PList []), (''max_scouters'', PInt 2)],
      scouters = [\<lparr>sid = 0, ant_x = 0, ant_y = 1, ant_state = 0\<rparr>,
                  \<lparr>sid = 1, ant_x = 0, ant_y = 1, ant_state = 0\<rparr>],
      rng = (\<lambda>i. 0), next_id = 2\<rparr>"

subsection \<open>Heaps\<close>

text \<open>
  A heap with the knowledge of \<open>manager1\<close> at reference 0 and an unrelated dictionary at
  reference 1, and the manager object that refers to the former.
\<close>

definition heap1 :: heap where
  "heap1 = \<lparr>dict_at = (\<lambda>a. if a = 0 then knowledge manager1 else [(''other'', PNone)]), fresh = 2\<rparr>"

definition self1 :: manager_obj where
  "self1 = \<lparr>board_of = board5, knowledge_ref = 0, scouters_of = scouters manager1\<rparr>"

text \<open>The text of a float in the scenarios: the floats that occur there are 0.125 and 0.5.\<close>

definition float_repr0 :: "rat \<Rightarrow> string" where
  "float_repr0 r = (if r = 1 / 8 then ''0.125'' else if r = 1 / 2 then ''0.5'' else ''?'')"

subsection \<open>Persisted knowledge\<close>

text \<open>
  The canonical form of a value sorts the entries of every dictionary in it by key; two
  values are the same up to key order when their canonical forms are equal. This is the
  equality of Python's dictionaries, which ignores the order of insertion.
\<close>

function canon :: "pyval \<Rightarrow> pyval" where
  "canon PNone = PNone"
| "canon (PBool b) = PBool b"
| "canon (PInt i) = PInt i"
| "canon (PFloat r) = PFloat r"
| "canon (PStr s) = PStr s"
| "canon (PList vs) = PList (map canon vs)"
| "canon (PTuple vs) = PTuple (map canon vs)"
| "canon (PDict d) = PDict (sort_key fst (map (\<lambda>kv. (fst kv, canon (snd kv))) d))"
  by pat_completeness auto
termination
proof (relation "measure size")
  show "wf (measure size)"
    by simp
next
  fix vs :: "pyval list" and x
  assume "x \<in> set vs"
  then have "size x < size (PList vs)"
    by (induction vs) auto
  then show "(x, PList vs) \<in> measure size"
    by simp
next
  fix vs :: "pyval list" and x
  assume "x \<in> set vs"
  then have "size x < size (PTuple vs)"
    by (induction vs) auto
  then show "(x, PTuple vs) \<in> measure size"
    by simp
next
  fix d :: dict and kv
  assume "kv \<in> set d"
  then have "size (snd kv) < size (PDict d)"
    by (induction d) auto
  then show "(snd kv, PDict d) \<in> measure size"
    by simp
qed

definition same_up_to_key_order :: "pyval \<Rightarrow> pyval \<Rightarrow> bool" where
  "same_up_to_key_order a b = (canon a = canon b)"






section \<open>Reading and writing the derived entries\<close>

lemma as_coords_coord [simp]: "as_coords (map coord fs) = Inr fs"
  by (induction fs) (auto simp: coord_def)

lemma getitem_setitem_same [simp]: "getitem (setitem d k v) k = Inr v"
  by (simp add: getitem_def setitem_def update_conv')

lemma getitem_setitem_other [simp]: "k' \<noteq> k \<Longrightarrow> getitem (setitem d k v) k' = getitem d k'"
  by (simp add: getitem_def setitem_def update_conv')

lemma map_of_setitem_other: "k' \<noteq> k \<Longrightarrow> map_of (setitem d k v) k' = map_of d k'"
  by (simp add: setitem_def update_conv')

lemma get_food_set_food [simp]: "get_food (set_food fs m) = Inr fs"
  by (simp add: get_food_def set_food_def)

lemma get_max_set_food [simp]: "get_max (set_food fs m) = get_max m"
  by (simp add: get_max_def set_food_def)

lemma get_max_set_max [simp]: "get_max (set_max n m) = Inr n"
  by (simp add: get_max_def set_max_def)

lemma get_food_set_max [simp]: "get_food (set_max n m) = get_food m"
  by (simp add: get_food_def set_max_def)

lemma set_food_fields [simp]:
  "board (set_food fs m) = board m" "scouters (set_food fs m) = scouters m"
  "rng (set_food fs m) = rng m" "next_id (set_food fs m) = next_id m"
  by (simp_all add: set_food_def)

lemma set_max_fields [simp]:
  "board (set_max n m) = board m" "scouters (set_max n m) = scouters m"
  "rng (set_max n m) = rng m" "next_id (set_max n m) = next_id m"
  by (simp_all add: set_max_def)

lemma get_food_scouters_update [simp]: "get_food (m\<lparr>scouters := ss\<rparr>) = get_food m"
  by (simp add: get_food_def)

lemma get_max_scouters_update [simp]: "get_max (m\<lparr>scouters := ss\<rparr>) = get_max m"
  by (simp add: get_max_def)

lemma update_present_mask:
  "k \<in> fst ` set d \<Longrightarrow>
     map (\<lambda>kv. if fst kv = k then (fst kv, w) else kv) (AList.update k v d)
       = map (\<lambda>kv. if fst kv = k then (fst kv, w) else kv) d"
  by (induction d) auto

lemma same_but_food_set_food:
  assumes "get_food m = Inr fs" shows "same_but_food (set_food fs' m) m"
proof -
  from assms have "''food'' \<in> fst ` set (knowledge m)"
    by (auto simp: get_food_def getitem_def split: option.splits dest: map_of_SomeD intro: rev_image_eqI)
  then show ?thesis
    by (simp add: same_but_food_def set_food_def setitem_def update_present_mask)
qed

lemma filter_remove1_out: "\<not> P a \<Longrightarrow> filter P (remove1 a xs) = filter P xs"
  by (induction xs) auto

lemma count_list_remove1_same: "a \<in> set xs \<Longrightarrow> count_list (remove1 a xs) a + 1 = count_list xs a"
  by (induction xs) auto

lemma count_list_remove1_other: "b \<noteq> a \<Longrightarrow> count_list (remove1 a xs) b = count_list xs b"
  by (induction xs) auto

lemma count_list_zero_filter: "count_list xs a = 0 \<Longrightarrow> filter (\<lambda>p. p \<noteq> a) xs = xs"
  by (induction xs) (auto split: if_splits)

section \<open>find_blob_square always returns a touched square\<close>

lemma set_availables:
  "set (availables b) = {(p, q). touched_square b p \<and> q = get_blob b (fst p) (snd p) + 1}"
  by (auto simp: availables_def touched_square_def)

lemma availables_empty_iff: "availables b = [] \<longleftrightarrow> (\<forall>p. \<not> touched_square b p)"
proof -
  have "availables b = [] \<longleftrightarrow> set (availables b) = {}"
    by simp
  also have "\<dots> \<longleftrightarrow> (\<forall>p. \<not> touched_square b p)"
    unfolding set_availables by auto
  finally show ?thesis .
qed

text \<open>
  The loop cannot fall off the end of a non-empty list when the drawn index is at most the
  sum of all weights: the last accumulated value is that sum.
\<close>

lemma find_blob_square_loop_finds:
  "xs \<noteq> [] \<Longrightarrow> of_int i \<le> acc + sum_list (map snd xs) \<Longrightarrow>
     \<exists>sq \<in> fst ` set xs. find_blob_square_loop acc i xs = Some sq"
proof (induction xs arbitrary: acc)
  case Nil
  then show ?case by simp
next
  case (Cons a xs)
  obtain sq qt where a: "a = (sq, qt)" by (cases a)
  show ?case
  proof (cases "of_int i \<le> acc + qt")
    case True
    then show ?thesis using a by simp
  next
    case False
    with Cons.prems a have ne: "xs \<noteq> []" by auto
    from Cons.prems a have "of_int i \<le> (acc + qt) + sum_list (map snd xs)"
      by (simp add: add.assoc)
    from Cons.IH [OF ne this] False a show ?thesis by auto
  qed
qed

lemma weights_ge_one:
  assumes "blob_nonneg b" shows "\<forall>q \<in> set (map snd (availables b)). 1 \<le> q"
  using assms by (auto simp: set_availables blob_nonneg_def touched_square_def)

lemma sum_list_ge_length:
  fixes qs :: "rat list"
  shows "\<forall>q \<in> set qs. 1 \<le> q \<Longrightarrow> of_nat (length qs) \<le> sum_list qs"
  by (induction qs) auto

lemma total_blob_ge_one:
  assumes "blob_nonneg b" and "availables b \<noteq> []"
  shows "1 \<le> total_blob b"
proof -
  have "of_nat (length (map snd (availables b))) \<le> total_blob b"
    unfolding total_blob_def using weights_ge_one [OF assms(1)] by (rule sum_list_ge_length)
  moreover have "1 \<le> length (availables b)"
    using assms(2) by (cases "availables b") auto
  ultimately show ?thesis
    by (metis length_map of_nat_1 of_nat_le_iff order_trans)
qed

lemma py_int_le: "0 \<le> r \<Longrightarrow> of_int (py_int r) \<le> r"
  by (simp add: py_int_def)

lemma py_int_pos: "1 \<le> r \<Longrightarrow> 1 \<le> py_int r"
  by (simp add: py_int_def le_floor_iff)

text \<open>
  Claim C6. On a board whose blob masses are non-negative, \<^verbatim>\<open>find_blob_square\<close> never
  raises and never returns None: when the board has a touched square, it returns the
  coordinate of a touched square of the board, whatever the random draw; when the board
  has no touched square, it returns \<open>(0, 0)\<close> and draws nothing.
\<close>

theorem find_blob_square_total:
  assumes "blob_nonneg b"
  shows "((\<exists>p. touched_square b p) \<longrightarrow>
            (\<exists>p r'. find_blob_square b r = Inr (Some p, r') \<and> touched_square b p))
       \<and> ((\<forall>p. \<not> touched_square b p) \<longrightarrow> find_blob_square b r = Inr (Some (0, 0), r))"
proof (intro conjI impI)
  assume "\<exists>p. touched_square b p"
  then have ne: "availables b \<noteq> []"
    by (simp add: availables_empty_iff)
  have t1: "1 \<le> total_blob b"
    using assms ne by (rule total_blob_ge_one)
  then have n1: "1 \<le> py_int (total_blob b)"
    by (rule py_int_pos)
  define i where "i = int (r 0) mod py_int (total_blob b)"
  have "i < py_int (total_blob b)"
    unfolding i_def using n1 by simp
  then have "(of_int i :: rat) \<le> of_int (py_int (total_blob b))"
    by simp
  also have "\<dots> \<le> total_blob b"
    using t1 by (simp add: py_int_le)
  finally have "of_int i \<le> 0 + sum_list (map snd (availables b))"
    by (simp add: total_blob_def)
  from find_blob_square_loop_finds [OF ne this]
  obtain sq where sq: "sq \<in> fst ` set (availables b)"
      "find_blob_square_loop 0 i (availables b) = Some sq"
    by blast
  from sq(1) have "touched_square b sq"
    by (auto simp: set_availables)
  moreover have "find_blob_square b r = Inr (Some sq, (\<lambda>i. r (Suc i)))"
    using ne n1 sq(2) by (simp add: find_blob_square_def randrange_def i_def)
  ultimately show "\<exists>p r'. find_blob_square b r = Inr (Some p, r') \<and> touched_square b p"
    by blast
next
  assume "\<forall>p. \<not> touched_square b p"
  then have "availables b = []"
    by (simp add: availables_empty_iff)
  then show "find_blob_square b r = Inr (Some (0, 0), r)"
    by (simp add: find_blob_square_def)
qed

theorem find_blob_square_total_witness:
  "blob_nonneg board5 \<and> touched_square board5 (1, 0)
     \<and> (\<exists>p r'. find_blob_square board5 (\<lambda>i. 3) = Inr (Some p, r') \<and> touched_square board5 p)
     \<and> blob_nonneg blank_board \<and> (\<forall>p. \<not> touched_square blank_board p)
     \<and> find_blob_square blank_board (\<lambda>i. 3) = Inr (Some (0, 0), (\<lambda>i. 3))"
proof -
  have n5: "blob_nonneg board5"
    by (simp add: blob_nonneg_def board5_def)
  have t5: "touched_square board5 (1, 0)"
    by (simp add: touched_square_def board5_def)
  have n0: "blob_nonneg blank_board"
    by (simp add: blob_nonneg_def blank_board_def)
  have t0: "\<forall>p. \<not> touched_square blank_board p"
    by (simp add: touched_square_def blank_board_def)
  show ?thesis
    using find_blob_square_total [OF n5, of "\<lambda>i. 3"] find_blob_square_total [OF n0, of "\<lambda>i. 3"]
      n5 t5 n0 t0
    by blast
qed

section \<open>food_destroyed\<close>

lemma mem_remove1_iff: "a \<in> set (remove1 a xs) \<longleftrightarrow> 2 \<le> count_list xs a"
proof (cases "a \<in> set xs")
  case True
  have "a \<in> set (remove1 a xs) \<longleftrightarrow> 0 < count_list (remove1 a xs) a"
    by (metis count_list_0_iff gr0I less_numeral_extra(3))
  with count_list_remove1_same [OF True] show ?thesis
    by auto
next
  case False
  then have "count_list xs a = 0" "remove1 a xs = xs"
    by (simp_all add: remove1_idem)
  with False show ?thesis
    by simp
qed

text \<open>
  Claim C9, as the code has it. In a manager whose known-food list is \<open>fs\<close>,
  \<^verbatim>\<open>food_destroyed(x, y)\<close> raises ValueError exactly when \<open>(x, y)\<close> is not in \<open>fs\<close>. When
  it is, the call succeeds, the list becomes \<open>fs\<close> without its first occurrence of
  \<open>(x, y)\<close> (one occurrence fewer of \<open>(x, y)\<close>, every other coordinate as before) and
  nothing else of the manager changes. The coordinate is still known afterwards exactly
  when the list held it at least twice; on a duplicate-free list the set of known foods
  loses exactly \<open>(x, y)\<close>.
\<close>

theorem food_destroyed_removes_first:
  assumes "get_food m = Inr fs"
  shows "(food_destroyed x y m = Inl ValueError \<longleftrightarrow> (x, y) \<notin> set fs)
       \<and> ((x, y) \<in> set fs \<longrightarrow>
            (\<exists>m'. food_destroyed x y m = Inr m' \<and> get_food m' = Inr (remove1 (x, y) fs)
                  \<and> same_but_food m' m
                  \<and> count_list (remove1 (x, y) fs) (x, y) + 1 = count_list fs (x, y)
                  \<and> (\<forall>p. p \<noteq> (x, y) \<longrightarrow> count_list (remove1 (x, y) fs) p = count_list fs p)
                  \<and> ((x, y) \<in> set (remove1 (x, y) fs) \<longleftrightarrow> 2 \<le> count_list fs (x, y))
                  \<and> (distinct fs \<longrightarrow> set (remove1 (x, y) fs) = set fs - {(x, y)})))"
  using assms same_but_food_set_food [OF assms] count_list_remove1_same [of "(x, y)" fs]
    count_list_remove1_other [of _ "(x, y)" fs] mem_remove1_iff [of "(x, y)" fs]
  by (auto simp: food_destroyed_def list_remove_def)

theorem food_destroyed_removes_first_witness:
  "get_food manager1 = Inr [(1, 0), (2, 1)] \<and> ((5, 5) :: int \<times> int) \<notin> set [(1, 0), (2, 1) :: int \<times> int]
     \<and> food_destroyed 5 5 manager1 = Inl ValueError
     \<and> ((1, 0) :: int \<times> int) \<in> set [(1, 0), (2, 1) :: int \<times> int] \<and> distinct [(1, 0), (2, 1) :: int \<times> int]
     \<and> (\<exists>m'. food_destroyed 1 0 manager1 = Inr m' \<and> get_food m' = Inr [(2, 1)] \<and> same_but_food m' manager1)"
proof -
  have h: "get_food manager1 = Inr [(1, 0), (2, 1)]"
    by code_simp
  show ?thesis
    using h food_destroyed_removes_first [OF h, of 5 5] food_destroyed_removes_first [OF h, of 1 0]
    by auto
qed

text \<open>
  The claim as stated fails where the list holds the coordinate twice: after construction
  on \<open>board5\<close> and two calls of \<^verbatim>\<open>food_discovered(1, 0)\<close>, \<^verbatim>\<open>food_destroyed(1, 0)\<close> leaves
  the list \<open>[(1, 0)]\<close>, and \<open>(1, 0)\<close> is still known.
\<close>

theorem food_destroyed_keeps_duplicate_counterexample:
  "and_then (init ext0 board5 (Loaded knowledge0) (\<lambda>i. 0)) (\<lambda>m.
   and_then (food_discovered 1 0 m) (\<lambda>m1.
   and_then (food_discovered 1 0 m1) (\<lambda>m2.
   and_then (food_destroyed 1 0 m2) get_food))) = Inr [(1, 0)]"
  by code_simp

section \<open>food_discovered\<close>

text \<open>
  Claim C2, as the code has it. \<^verbatim>\<open>food_discovered(x, y)\<close> appends \<open>(x, y)\<close> to the
  known-food list whether or not it is already there and changes nothing else: each call
  adds one occurrence, so two calls with the same coordinate add two. A call with a
  coordinate that is not yet in a duplicate-free list, which is the only call the tick
  makes, leaves the list duplicate-free.
\<close>

theorem food_discovered_appends:
  assumes "get_food m = Inr fs"
  shows "\<exists>m' m''. food_discovered x y m = Inr m' \<and> get_food m' = Inr (fs @ [(x, y)])
           \<and> same_but_food m' m
           \<and> count_list (fs @ [(x, y)]) (x, y) = count_list fs (x, y) + 1
           \<and> food_discovered x y m' = Inr m'' \<and> get_food m'' = Inr (fs @ [(x, y), (x, y)])
           \<and> count_list (fs @ [(x, y), (x, y)]) (x, y) = count_list fs (x, y) + 2
           \<and> ((x, y) \<notin> set fs \<and> distinct fs \<longrightarrow> distinct (fs @ [(x, y)]))"
  using assms same_but_food_set_food [OF assms]
  by (simp add: food_discovered_def)

theorem food_discovered_appends_witness:
  "get_food manager1 = Inr [(1, 0), (2, 1)]
     \<and> (\<exists>m' m''. food_discovered 0 1 manager1 = Inr m' \<and> get_food m' = Inr [(1, 0), (2, 1), (0, 1)]
           \<and> food_discovered 0 1 m' = Inr m'' \<and> get_food m'' = Inr [(1, 0), (2, 1), (0, 1), (0, 1)])
     \<and> ((0, 1) :: int \<times> int) \<notin> set [(1, 0), (2, 1) :: int \<times> int] \<and> distinct [(1, 0), (2, 1) :: int \<times> int]
     \<and> distinct [(1, 0), (2, 1), (0, 1) :: int \<times> int]"
proof -
  have h: "get_food manager1 = Inr [(1, 0), (2, 1)]"
    by code_simp
  show ?thesis
    using h food_discovered_appends [OF h, of 0 1]
    by auto
qed

text \<open>
  The claim as stated fails: after construction on \<open>board5\<close>, which knows no food, two
  calls of \<^verbatim>\<open>food_discovered(1, 0)\<close> leave two occurrences of \<open>(1, 0)\<close>.
\<close>

theorem food_discovered_twice_counterexample:
  "and_then (init ext0 board5 (Loaded knowledge0) (\<lambda>i. 0)) (\<lambda>m.
   and_then (food_discovered 1 0 m) (\<lambda>m1.
   and_then (food_discovered 1 0 m1) get_food)) = Inr [(1, 0), (1, 0)]"
  by code_simp

section \<open>reset\<close>

text \<open>
  Both loops of \<^verbatim>\<open>reset\<close> walk a copy and remove from the live list; as long as the live
  list holds as many occurrences of the removed elements as the rest of the copy, no
  removal fails and the result is a filter of the live list.
\<close>

lemma reset_scouters_filter:
  "\<forall>s. at_square x y s \<longrightarrow> count_list live s = count_list copy s \<Longrightarrow>
     reset_scouters x y copy live = Inr (filter (\<lambda>s. \<not> at_square x y s) live)"
proof (induction copy arbitrary: live)
  case Nil
  then have "\<forall>s \<in> set live. \<not> at_square x y s"
    by (metis count_list.simps(1) count_list_0_iff)
  then show ?case by simp
next
  case (Cons s copy)
  show ?case
  proof (cases "at_square x y s")
    case True
    with Cons.prems have "count_list live s = Suc (count_list copy s)" by simp
    then have mem: "s \<in> set live"
      by (metis count_list_0_iff nat.simps(3))
    have "\<forall>t. at_square x y t \<longrightarrow> count_list (remove1 s live) t = count_list copy t"
    proof (intro allI impI)
      fix t assume t: "at_square x y t"
      show "count_list (remove1 s live) t = count_list copy t"
      proof (cases "t = s")
        case True
        then show ?thesis
          using count_list_remove1_same [OF mem] Cons.prems t by simp
      next
        case False
        then show ?thesis
          using count_list_remove1_other [of t s live] Cons.prems t by simp
      qed
    qed
    from Cons.IH [OF this] True mem show ?thesis
      by (simp add: list_remove_def at_square_def filter_remove1_out)
  next
    case False
    have "\<forall>t. at_square x y t \<longrightarrow> count_list live t = count_list copy t"
      using Cons.prems False by auto
    from Cons.IH [OF this] False show ?thesis
      by (auto simp: at_square_def)
  qed
qed

lemma reset_food_filter:
  "get_food m = Inr fs \<Longrightarrow> get_max m = Inr mx \<Longrightarrow> count_list fs (x, y) = count_list copy (x, y) \<Longrightarrow>
     \<exists>m'. reset_food x y copy m = Inr m' \<and> get_food m' = Inr (filter (\<lambda>p. p \<noteq> (x, y)) fs)
        \<and> get_max m' = Inr (mx - int (count_list copy (x, y))) \<and> same_but_knowledge m' m
        \<and> (count_list copy (x, y) = 0 \<longrightarrow> m' = m)"
proof (induction copy arbitrary: m fs mx)
  case Nil
  then show ?case
    by (simp add: count_list_zero_filter same_but_knowledge_def)
next
  case (Cons food copy)
  show ?case
  proof (cases "food = (x, y)")
    case True
    with Cons.prems have cnt: "count_list fs (x, y) = Suc (count_list copy (x, y))" by simp
    then have mem: "(x, y) \<in> set fs"
      by (metis count_list_0_iff nat.simps(3))
    let ?fs' = "remove1 (x, y) fs"
    let ?m1 = "set_max (mx - 1) (set_food ?fs' m)"
    have c: "count_list ?fs' (x, y) = count_list copy (x, y)"
      using count_list_remove1_same [OF mem] cnt by simp
    have "get_food ?m1 = Inr ?fs'" "get_max ?m1 = Inr (mx - 1)"
      by simp_all
    from Cons.IH [OF this c] obtain m' where m':
      "reset_food x y copy ?m1 = Inr m'" "get_food m' = Inr (filter (\<lambda>p. p \<noteq> (x, y)) ?fs')"
      "get_max m' = Inr (mx - 1 - int (count_list copy (x, y)))" "same_but_knowledge m' ?m1"
      by blast
    have "reset_food x y (food # copy) m = Inr m'"
      using True Cons.prems mem m'(1) by (simp add: list_remove_def)
    then show ?thesis
      using m' True by (simp add: filter_remove1_out same_but_knowledge_def)
  next
    case False
    with Cons.prems have "count_list fs (x, y) = count_list copy (x, y)" by simp
    from Cons.IH [OF Cons.prems(1,2) this] False show ?thesis
      by simp
  qed
qed

text \<open>
  Claim C8, as the code has it. In a manager whose known-food list is \<open>fs\<close> and whose
  cached target is \<open>mx\<close>, \<^verbatim>\<open>reset(x, y)\<close> succeeds; it removes every scouter standing on
  \<open>(x, y)\<close> and every occurrence of \<open>(x, y)\<close> from the known-food list, and decrements the
  cached target once per occurrence removed, without recomputing it; the board is not
  touched. When \<open>(x, y)\<close> is known and the list is duplicate-free, the target is decremented
  by exactly one; when \<open>(x, y)\<close> holds neither a scouter nor known food, the manager is
  unchanged.
\<close>

theorem reset_removes_per_occurrence:
  assumes "get_food m = Inr fs" and "get_max m = Inr mx"
  shows "\<exists>m'. reset x y m = Inr m'
           \<and> scouters m' = filter (\<lambda>s. \<not> at_square x y s) (scouters m)
           \<and> get_food m' = Inr (filter (\<lambda>p. p \<noteq> (x, y)) fs)
           \<and> get_max m' = Inr (mx - int (count_list fs (x, y)))
           \<and> board m' = board m \<and> rng m' = rng m \<and> next_id m' = next_id m
           \<and> ((x, y) \<in> set fs \<and> distinct fs \<longrightarrow> get_max m' = Inr (mx - 1))
           \<and> ((x, y) \<notin> set fs \<and> (\<forall>s \<in> set (scouters m). \<not> at_square x y s) \<longrightarrow> m' = m)"
proof -
  let ?live = "filter (\<lambda>s. \<not> at_square x y s) (scouters m)"
  let ?m1 = "m\<lparr>scouters := ?live\<rparr>"
  have rs: "reset_scouters x y (scouters m) (scouters m) = Inr ?live"
    by (rule reset_scouters_filter) simp
  have "get_food ?m1 = Inr fs" "get_max ?m1 = Inr mx"
    using assms by simp_all
  from reset_food_filter [OF this refl] obtain m' where m':
    "reset_food x y fs ?m1 = Inr m'" "get_food m' = Inr (filter (\<lambda>p. p \<noteq> (x, y)) fs)"
    "get_max m' = Inr (mx - int (count_list fs (x, y)))" "same_but_knowledge m' ?m1"
    "count_list fs (x, y) = 0 \<longrightarrow> m' = ?m1"
    by blast
  have r: "reset x y m = Inr m'"
    using rs m'(1) assms by (simp add: reset_def)
  have one: "(x, y) \<in> set fs \<and> distinct fs \<longrightarrow> count_list fs (x, y) = 1"
    by (induction fs) auto
  have none: "(x, y) \<notin> set fs \<and> (\<forall>s \<in> set (scouters m). \<not> at_square x y s) \<longrightarrow> m' = m"
  proof
    assume h: "(x, y) \<notin> set fs \<and> (\<forall>s \<in> set (scouters m). \<not> at_square x y s)"
    then have "?live = scouters m" by simp
    moreover from h have "count_list fs (x, y) = 0" by simp
    ultimately show "m' = m" using m'(5) by simp
  qed
  show ?thesis
    using r m'(2,3,4) one none by (auto simp: same_but_knowledge_def)
qed

theorem reset_removes_per_occurrence_witness:
  "get_food manager1 = Inr [(1, 0), (2, 1)] \<and> get_max manager1 = Inr 3
     \<and> ((1, 0) :: int \<times> int) \<in> set [(1, 0), (2, 1) :: int \<times> int] \<and> distinct [(1, 0), (2, 1) :: int \<times> int]
     \<and> (\<exists>m'. reset 1 0 manager1 = Inr m' \<and> map sid (scouters m') = [1]
            \<and> get_food m' = Inr [(2, 1)] \<and> get_max m' = Inr 2)
     \<and> ((0, 1) :: int \<times> int) \<notin> set [(1, 0), (2, 1) :: int \<times> int] \<and> list_all (\<lambda>s. \<not> at_square 0 1 s) (scouters manager1)
     \<and> reset 0 1 manager1 = Inr manager1"
proof -
  have h: "get_food manager1 = Inr [(1, 0), (2, 1)]"
    by code_simp
  have g: "get_max manager1 = Inr 3"
    by code_simp
  have s: "list_all (\<lambda>s. \<not> at_square 0 1 s) (scouters manager1)"
    by (simp add: manager1_def at_square_def)
  have f: "map sid (filter (\<lambda>s. \<not> at_square 1 0 s) (scouters manager1)) = [1]"
    by (simp add: manager1_def at_square_def)
  show ?thesis
    using h g s f reset_removes_per_occurrence [OF h g, of 1 0] reset_removes_per_occurrence [OF h g, of 0 1]
    by (auto simp: list_all_iff)
qed

text \<open>
  The claim as stated fails where the list holds a coordinate twice: after construction
  on \<open>board5\<close> and two calls of \<^verbatim>\<open>food_discovered(1, 0)\<close>, the cached target is 2, and
  \<^verbatim>\<open>reset(1, 0)\<close> leaves it at 0.
\<close>

theorem reset_decrements_twice_counterexample:
  "and_then (init ext0 board5 (Loaded knowledge0) (\<lambda>i. 0)) (\<lambda>m.
   and_then (food_discovered 1 0 m) (\<lambda>m1.
   and_then (food_discovered 1 0 m1) (\<lambda>m2.
   and_then (reset 1 0 m2) (\<lambda>m3.
   and_then (get_max m2) (\<lambda>before.
   and_then (get_max m3) (\<lambda>after. Inr (before, after))))))) = Inr (2, 0)"
  by code_simp

section \<open>compute_max_scouters\<close>

lemma py_int_floor: "0 \<le> r \<Longrightarrow> py_int r = \<lfloor>r\<rfloor>"
  by (simp add: py_int_def)

lemma py_int_neg_le: "r < 0 \<Longrightarrow> py_int r \<le> 0 \<and> \<lfloor>r\<rfloor> \<le> py_int r"
  by (simp add: py_int_def ceiling_le_iff floor_le_ceiling)

lemma max_py_int_floor:
  assumes "0 \<le> mn \<or> 0 \<le> r"
  shows "max mn (py_int r) = max mn \<lfloor>r\<rfloor>"
proof (cases "0 \<le> r")
  case True
  then show ?thesis by (simp add: py_int_floor)
next
  case False
  with assms have "0 \<le> mn" by simp
  moreover from False have "py_int r \<le> 0 \<and> \<lfloor>r\<rfloor> \<le> py_int r"
    by (simp add: py_int_neg_le)
  ultimately show ?thesis by simp
qed

text \<open>
  Claim C4, as the code has it. With the factors, the minimum and the known-food list
  read from the knowledge, \<^verbatim>\<open>compute_max_scouters\<close> evaluates the formula in Python's
  arithmetic, each operation rounded to a double, and casts the result with \<^verbatim>\<open>int\<close>. When
  the formula gives a finite double \<open>F\<close>, the result is the maximum of the minimum and
  \<open>F\<close> truncated towards zero. Truncation and floor agree when \<open>F\<close> is not negative, and
  the maximum hides the difference when the minimum is not negative: in both cases the
  result is \<open>max(Min, floor(F))\<close>, for the rounded \<open>F\<close>.
\<close>

theorem compute_max_scouters_formula:
  assumes "factor m ''Blob Size Factor'' = Inr bsf" and "factor m ''Covering Factor'' = Inr cf"
    and "factor m ''Known Foods Factor'' = Inr kff" and "factor m ''Global Factor'' = Inr gf"
    and "scouters_min m = Inr mn" and "get_food m = Inr fs"
  shows "compute_max_scouters m
           = and_then (double_F (board m) (length fs) bsf cf kff gf) (\<lambda>F.
             and_then (num_int F) (\<lambda>t. Inr (max mn t)))
       \<and> (double_F (board m) (length fs) bsf cf kff gf = Inr (NFloat (Finite F)) \<longrightarrow>
            compute_max_scouters m = Inr (max mn (py_int F))
            \<and> (0 \<le> mn \<or> 0 \<le> F \<longrightarrow> compute_max_scouters m = Inr (max mn \<lfloor>F\<rfloor>)))"
proof -
  have c: "compute_max_scouters m
           = and_then (double_F (board m) (length fs) bsf cf kff gf) (\<lambda>F.
             and_then (num_int F) (\<lambda>t. Inr (max mn t)))"
    using assms
    by (simp add: compute_max_scouters_def double_F_def and_then_def split: sum.splits)
  then show ?thesis
    by (auto simp: and_then_def max_py_int_floor)
qed

text \<open>The scenario of the specification: the formula is 0 and the result is the minimum, 2.\<close>

theorem compute_max_scouters_formula_witness:
  "factor manager10 ''Blob Size Factor'' = Inr (NInt 0) \<and> factor manager10 ''Covering Factor'' = Inr (NInt 0)
     \<and> factor manager10 ''Known Foods Factor'' = Inr (NInt 0) \<and> factor manager10 ''Global Factor'' = Inr (NInt 1)
     \<and> scouters_min manager10 = Inr 2 \<and> get_food manager10 = Inr []
     \<and> double_F (board manager10) (length ([] :: (int \<times> int) list)) (NInt 0) (NInt 0) (NInt 0) (NInt 1)
          = Inr (NFloat (Finite 0))
     \<and> compute_max_scouters manager10 = Inr 2"
proof -
  have f: "factor manager10 ''Blob Size Factor'' = Inr (NInt 0)" "factor manager10 ''Covering Factor'' = Inr (NInt 0)"
     "factor manager10 ''Known Foods Factor'' = Inr (NInt 0)" "factor manager10 ''Global Factor'' = Inr (NInt 1)"
     "scouters_min manager10 = Inr 2" "get_food manager10 = Inr []"
    by code_simp+
  have z: "double_F (board manager10) (length ([] :: (int \<times> int) list)) (NInt 0) (NInt 0) (NInt 0) (NInt 1)
          = Inr (NFloat (Finite 0))"
    by code_simp
  show ?thesis
    using f z compute_max_scouters_formula [OF f, of 0] by (simp add: py_int_def and_then_def)
qed

text \<open>
  The claim as stated, with \<open>F\<close> the exact value of the formula, fails: on a 570 by 100
  board of total blob mass 100, with \<^verbatim>\<open>Blob Size Factor\<close> 1, \<^verbatim>\<open>Global Factor\<close> 1 and
  minimum 2, the exact \<open>F\<close> is 57, but \<^verbatim>\<open>570 * 100 / 100000\<close> is the double nearest to
  0.57, its product with 100.0 rounds to the double below 57, and the code returns 56.
\<close>

theorem compute_max_scouters_rounds_counterexample:
  "compute_max_scouters manager570 = Inr 56
     \<and> get_food manager570 = Inr []
     \<and> spec_F (board manager570) 0 1 0 0 1 = 57
     \<and> max 2 \<lfloor>spec_F (board manager570) 0 1 0 0 1\<rfloor> = 57"
  by code_simp

section \<open>The weights of find_blob_square\<close>

text \<open>
  Claim C5 at the board \<open>board_AB\<close>: A has weight 3 and B weight 1, the draw ranges over
  the four values 0, 1, 2, 3, and every one of them selects A, because the loop compares the
  accumulated weight with \<open>\<ge>\<close>: four of the four values select A, whose weight is 3,
  and none selects B, whose weight is 1.
\<close>

theorem find_blob_square_last_never_selected:
  "availables board_AB = [((0, 0), 3), ((1, 0), 1)]
     \<and> py_int (total_blob board_AB) = 4
     \<and> map (\<lambda>index_pond. find_blob_square_loop 0 index_pond (availables board_AB)) [0, 1, 2, 3]
         = [Some (0, 0), Some (0, 0), Some (0, 0), Some (0, 0)]"
  by code_simp

text \<open>Hence \<^verbatim>\<open>find_blob_square\<close> returns A on this board for every state of the random source.\<close>

lemma find_blob_square_board_AB: "find_blob_square board_AB r = Inr (Some (0, 0), (\<lambda>i. r (Suc i)))"
proof -
  have a: "availables board_AB = [((0, 0), 3), ((1, 0), 1)]" and t: "py_int (total_blob board_AB) = 4"
    by code_simp+
  have "int (r 0) mod 4 \<le> 3"
    by simp
  then have "(of_int (int (r 0) mod 4) :: rat) \<le> 3"
    by (metis of_int_le_iff of_int_numeral)
  then show ?thesis
    by (simp add: find_blob_square_def a t randrange_def)
qed

section \<open>Construction from a defective source\<close>

text \<open>
  The errors of the lookups are KeyError and TypeError; the error of the arithmetic before
  the cast is OverflowError.
\<close>

lemma as_coords_error: "as_coords vs = Inl e \<Longrightarrow> e = TypeError"
proof (induction vs)
  case Nil
  then show ?case by simp
next
  case (Cons v vs)
  have "as_coord v = Inl e' \<Longrightarrow> e' = TypeError" for e'
    by (cases v rule: as_coord.cases) auto
  with Cons show ?case
    by (auto split: sum.splits)
qed

lemma as_num_error: "as_num v = Inl e \<Longrightarrow> e = TypeError"
  by (cases v) auto

lemma as_int_error: "as_int v = Inl e \<Longrightarrow> e = TypeError"
  by (cases v) auto

lemma subscript_error: "subscript v k = Inl e \<Longrightarrow> e = KeyError \<or> e = TypeError"
  by (cases v) (auto simp: getitem_def split: option.splits)

lemma factor_error: "factor m k = Inl e \<Longrightarrow> e = KeyError \<or> e = TypeError"
  by (auto simp: factor_def getitem_def split: option.splits sum.splits
           dest: subscript_error as_num_error)

lemma scouters_min_error: "scouters_min m = Inl e \<Longrightarrow> e = KeyError \<or> e = TypeError"
  by (auto simp: scouters_min_def getitem_def split: option.splits sum.splits
           dest: subscript_error as_int_error)

lemma get_food_error: "get_food m = Inl e \<Longrightarrow> e = KeyError \<or> e = TypeError"
  by (auto simp: get_food_def getitem_def split: option.splits sum.splits pyval.splits
           dest: as_coords_error)

lemma to_float_error: "to_float i = Inl e \<Longrightarrow> e = OverflowError"
  by (auto simp: to_float_def split: double.splits)

lemma num_mul_error: "num_mul a b = Inl e \<Longrightarrow> e = OverflowError"
  by (cases a; cases b) (auto split: sum.splits dest: to_float_error)

lemma num_add_error: "num_add a b = Inl e \<Longrightarrow> e = OverflowError"
  by (cases a; cases b) (auto split: sum.splits dest: to_float_error)

lemma int_truediv_error: "int_truediv a 100000 = Inl e \<Longrightarrow> e = OverflowError"
  by (auto simp: int_truediv_def split: double.splits)

lemma factor_missing:
  "\<not> has_nested (knowledge m) (''Computing'', k) \<Longrightarrow> isl (factor m k)"
  by (auto simp: has_nested_def has_key_def factor_def getitem_def split: option.splits pyval.splits)

lemma scouters_min_missing:
  "\<not> has_nested (knowledge m) (''Scouters'', ''Min'') \<Longrightarrow> isl (scouters_min m)"
  by (auto simp: has_nested_def has_key_def scouters_min_def getitem_def split: option.splits pyval.splits)

text \<open>
  When a field that the constructor reads is missing, \<^verbatim>\<open>compute_max_scouters\<close> raises at
  its lookup, or earlier at another lookup or at a conversion.
\<close>

lemma compute_max_scouters_missing:
  assumes "\<exists>p \<in> set required_at_init. \<not> has_nested (knowledge m) p"
  shows "config_error (compute_max_scouters m)"
proof -
  from assms consider
      "isl (factor m ''Blob Size Factor'')" | "isl (factor m ''Covering Factor'')"
    | "isl (factor m ''Known Foods Factor'')" | "isl (factor m ''Global Factor'')"
    | "isl (scouters_min m)"
    by (auto simp: required_at_init_def dest: factor_missing scouters_min_missing)
  then show ?thesis
    by cases
      (auto simp: compute_max_scouters_def config_error_def isl_def split: sum.splits
            dest: factor_error scouters_min_error get_food_error num_mul_error num_add_error
              int_truediv_error)
qed

lemma has_nested_set_food:
  "fst p \<noteq> ''food'' \<Longrightarrow> has_nested (knowledge (set_food fs m)) p = has_nested (knowledge m) p"
  by (simp add: has_nested_def set_food_def map_of_setitem_other)

lemma init_missing:
  assumes "\<exists>p \<in> set required_at_init. \<not> has_nested d p"
  shows "config_error (init e b (Loaded d) r)"
proof -
  let ?m = "set_food (scan_food b) \<lparr>board = b, knowledge = d, scouters = [], rng = r, next_id = 0\<rparr>"
  from assms obtain p where p: "p \<in> set required_at_init" "\<not> has_nested d p"
    by blast
  then have "fst p \<noteq> ''food''"
    by (auto simp: required_at_init_def)
  with p(2) have "\<not> has_nested (knowledge ?m) p"
    by (simp add: has_nested_set_food)
  with p(1) have "\<exists>p \<in> set required_at_init. \<not> has_nested (knowledge ?m) p"
    by blast
  then have "config_error (compute_max_scouters ?m)"
    by (rule compute_max_scouters_missing)
  then show ?thesis
    by (auto simp: init_def config_error_def)
qed

text \<open>
  No step of a tick adds or removes a key of the knowledge other than \<^verbatim>\<open>'food'\<close> and
  \<^verbatim>\<open>'max_scouters'\<close>.
\<close>

lemma add_scouter_knowledge: "add_scouter e m = Inr m' \<Longrightarrow> knowledge m' = knowledge m"
  by (auto simp: add_scouter_def spawn_at_def split: sum.splits if_splits option.splits prod.splits)

lemma remove_scouter_knowledge: "remove_scouter m = Inr m' \<Longrightarrow> knowledge m' = knowledge m"
  by (auto simp: remove_scouter_def split: sum.splits prod.splits)

lemma repeat_op_knowledge:
  assumes "\<And>m m'. f m = Inr m' \<Longrightarrow> knowledge m' = knowledge m"
  shows "repeat_op n f m = Inr m' \<Longrightarrow> knowledge m' = knowledge m"
proof (induction n arbitrary: m)
  case 0
  then show ?case by simp
next
  case (Suc n)
  then show ?case
    by (auto split: sum.splits dest: assms)
qed

lemma repeat_add_knowledge:
  "repeat_op n (add_scouter e) m = Inr m' \<Longrightarrow> knowledge m' = knowledge m"
  by (rule repeat_op_knowledge [of "add_scouter e" n m m']) (auto dest: add_scouter_knowledge)

lemma repeat_remove_knowledge:
  "repeat_op n remove_scouter m = Inr m' \<Longrightarrow> knowledge m' = knowledge m"
  by (rule repeat_op_knowledge [of remove_scouter n m m']) (auto dest: remove_scouter_knowledge)

lemma reconcile_knowledge: "reconcile e diff m = Inr m' \<Longrightarrow> knowledge m' = knowledge m"
  by (auto simp: reconcile_def split: if_splits dest: repeat_add_knowledge repeat_remove_knowledge)

lemma replace_deads_knowledge: "replace_deads e deads m = Inr m' \<Longrightarrow> knowledge m' = knowledge m"
proof (induction deads arbitrary: m)
  case Nil
  then show ?case by simp
next
  case (Cons d deads)
  then show ?case
    by (auto split: sum.splits dest!: add_scouter_knowledge)
qed

lemma food_discovered_keys:
  "food_discovered x y m = Inr m' \<Longrightarrow> k \<noteq> ''food'' \<Longrightarrow> map_of (knowledge m') k = map_of (knowledge m) k"
  by (auto simp: food_discovered_def set_food_def map_of_setitem_other split: sum.splits)

lemma move_scouters_keys:
  "move_scouters e ss m = Inr (ss', deads, m') \<Longrightarrow> k \<noteq> ''food'' \<Longrightarrow>
     map_of (knowledge m') k = map_of (knowledge m) k"
proof (induction ss arbitrary: m ss' deads)
  case Nil
  then show ?case by simp
next
  case (Cons s ss)
  obtain x' y' st' b' r' where mv:
    "fsm_move e (board m) (knowledge m) (rng m) (ant_x s, ant_y s, ant_state s) = ((x', y', st'), b', r')"
    by (metis prod_cases3)
  let ?m0 = "m\<lparr>board := b', rng := r'\<rparr>"
  show ?case
  proof (cases "(ant_x s, ant_y s) = (x', y')")
    case True
    with Cons.prems mv obtain ss0 deads0 where
      "move_scouters e ss ?m0 = Inr (ss0, deads0, m')"
      by (auto split: sum.splits)
    from Cons.IH [OF this Cons.prems(2)] show ?thesis by simp
  next
    case False
    with Cons.prems mv obtain m1 st2 b2 ss0 deads0 where
      m1: "(if has_food b' x' y' then
              (case get_food ?m0 of Inl er \<Rightarrow> Inl er
               | Inr fs \<Rightarrow> (if (x', y') \<notin> set fs then food_discovered x' y' ?m0 else Inr ?m0))
            else Inr ?m0) = Inr m1"
      and rec: "move_scouters e ss (m1\<lparr>board := b2\<rparr>) = Inr (ss0, deads0, m')"
      by (auto split: sum.splits prod.splits)
    from m1 have "map_of (knowledge m1) k = map_of (knowledge m) k"
      using Cons.prems(2) by (auto split: if_splits sum.splits dest: food_discovered_keys)
    with Cons.IH [OF rec Cons.prems(2)] show ?thesis by simp
  qed
qed

lemma move_missing:
  assumes "\<exists>k \<in> set required_at_move. \<not> has_key (knowledge m) k"
  shows "isl (move e m)"
proof (rule ccontr)
  assume "\<not> isl (move e m)"
  then obtain mf where mf: "move e m = Inr mf"
    by (cases "move e m") auto
  from assms obtain k where k: "k \<in> set required_at_move" "map_of (knowledge m) k = None"
    by (auto simp: has_key_def)
  then have kn: "k \<noteq> ''food''" "k \<noteq> ''max_scouters''"
    by (auto simp: required_at_move_def)
  from mf obtain ss deads m1 new_max m2 m3 gd rb where
    s1: "move_scouters e (scouters m) m = Inr (ss, deads, m1)"
    and s2: "reconcile e (new_max - int (length ss)) (set_max new_max (m1\<lparr>scouters := ss\<rparr>)) = Inr m2"
    and s3: "replace_deads e deads m2 = Inr m3"
    and s4: "getitem (knowledge m3) ''Global Decrease'' = Inr gd"
    and s5: "getitem (knowledge m3) ''Remaining Blob on Food'' = Inr rb"
    unfolding move_def by (auto split: sum.splits prod.splits)
  have "knowledge m3 = knowledge (set_max new_max (m1\<lparr>scouters := ss\<rparr>))"
    using replace_deads_knowledge [OF s3] reconcile_knowledge [OF s2] by simp
  then have "map_of (knowledge m3) k = map_of (knowledge m1) k"
    using kn by (simp add: set_max_def map_of_setitem_other)
  also have "\<dots> = None"
    using move_scouters_keys [OF s1 kn(1)] k(2) by simp
  finally show False
    using s4 s5 k(1) by (auto simp: required_at_move_def getitem_def)
qed

text \<open>
  Claim C3, as the code has it. Construction raises when the source cannot be read
  (OSError) or is not JSON (JSONDecodeError), and it raises KeyError or TypeError (or
  OverflowError, where an earlier factor is an int too large for a float) when the loaded
  knowledge lacks any of \<^verbatim>\<open>Computing.Blob Size Factor\<close>, \<^verbatim>\<open>Computing.Covering Factor\<close>,
  \<^verbatim>\<open>Computing.Known Foods Factor\<close>, \<^verbatim>\<open>Computing.Global Factor\<close> and \<^verbatim>\<open>Scouters.Min\<close>, which
  the constructor reads to compute the first target. \<^verbatim>\<open>Global Decrease\<close> and
  \<^verbatim>\<open>Remaining Blob on Food\<close> are read by \<^verbatim>\<open>move\<close> only: a tick of a manager whose knowledge
  lacks one of them always raises.
\<close>

theorem init_fails_on_defective_source:
  "init e b Unreadable r = Inl OSError
   \<and> init e b Malformed r = Inl JSONDecodeError
   \<and> ((\<exists>p \<in> set required_at_init. \<not> has_nested d p) \<longrightarrow> config_error (init e b (Loaded d) r))
   \<and> ((\<exists>k \<in> set required_at_move. \<not> has_key (knowledge m) k) \<longrightarrow> isl (move e m))"
  using init_missing [of d e b r] move_missing [of m e]
  by (simp add: init_def)

theorem init_fails_on_defective_source_witness:
  "(''Scouters'', ''Min'') \<in> set required_at_init
   \<and> \<not> has_nested knowledge_no_min (''Scouters'', ''Min'')
   \<and> config_error (init ext0 board5 (Loaded knowledge_no_min) (\<lambda>i. 0))
   \<and> ''Global Decrease'' \<in> set required_at_move
   \<and> \<not> has_key (knowledge manager_no_decrease) ''Global Decrease''
   \<and> isl (move ext0 manager_no_decrease)"
proof -
  have a: "(''Scouters'', ''Min'') \<in> set required_at_init"
    by (simp add: required_at_init_def)
  have b: "\<not> has_nested knowledge_no_min (''Scouters'', ''Min'')"
    by (simp add: has_nested_def has_key_def knowledge_no_min_def)
  have c: "''Global Decrease'' \<in> set required_at_move"
    by (simp add: required_at_move_def)
  have d: "\<not> has_key (knowledge manager_no_decrease) ''Global Decrease''"
    by (simp add: has_key_def manager_no_decrease_def knowledge_no_decrease_def)
  show ?thesis
    using a b c d
      init_fails_on_defective_source [of ext0 board5 "\<lambda>i. 0" knowledge_no_min manager_no_decrease]
    by blast
qed

text \<open>
  The claim as stated fails for a knowledge without \<^verbatim>\<open>Global Decrease\<close>: construction on
  \<open>board5\<close> succeeds and spawns two scouters; the KeyError comes with the first tick.
\<close>

theorem init_without_global_decrease_counterexample:
  "has_key knowledge_no_decrease ''Global Decrease'' = False
   \<and> and_then (init ext0 board5 (Loaded knowledge_no_decrease) (\<lambda>i. 0)) observe
       = Inr ([(0, 0, 1), (1, 0, 1)], Inr 2)
   \<and> and_then (init ext0 board5 (Loaded knowledge_no_decrease) (\<lambda>i. 0)) (\<lambda>m.
      and_then (move ext0 m) observe) = Inl KeyError"
  by code_simp

section \<open>A tick that culls a dead scouter\<close>

text \<open>
  Claim C1 at a concrete colony. Construction on \<open>board_decay\<close> gives two scouters for a
  target of 2. No ant can move, so in each tick every scouter is queued as dead. The first
  tick completes: the target is still 2, both scouters are replaced, and the board decays
  to a total blob mass of 1. In the second tick the target is 1, the shrink pass culls the
  scouter with identity 2, which is queued as dead, and the dead-replacement pass then
  calls \<^verbatim>\<open>self.scouters.remove\<close> on it: the tick raises ValueError.
\<close>

theorem move_fails_on_culled_dead:
  "and_then (init ext_decay board_decay (Loaded knowledge_decay) rng_decay) observe
      = Inr ([(0, 0, 0), (1, 0, 0)], Inr 2)
   \<and> and_then (init ext_decay board_decay (Loaded knowledge_decay) rng_decay) (\<lambda>m.
       and_then (move ext_decay m) observe) = Inr ([(2, 0, 0), (3, 1, 0)], Inr 2)
   \<and> and_then (init ext_decay board_decay (Loaded knowledge_decay) rng_decay) (\<lambda>m.
       and_then (move ext_decay m) (\<lambda>m1.
       and_then (move ext_decay m1) observe)) = Inl ValueError"
  by code_simp

section \<open>save leaves the manager as it was\<close>

text \<open>On the heap, \<^verbatim>\<open>save\<close> returns what \<open>save\<close> computes from the manager's value.\<close>

lemma save_obj_result:
  assumes "knowledge_ref self < fresh h"
  shows "fst (save_obj fr self h) = save fr (manager_of self h r n)"
  by (auto simp: save_obj_def save_def dict_copy_def dict_del_def manager_of_def split: sum.splits)

text \<open>
  Claim C10. For a manager object whose knowledge is an allocated dictionary, \<^verbatim>\<open>save\<close>
  returns the text (or the KeyError) that \<open>save\<close> computes, and leaves the manager object
  and every allocated dictionary as they were: the knowledge still holds its \<^verbatim>\<open>'food'\<close>
  and \<^verbatim>\<open>'max_scouters'\<close> entries with their values, and the board and the scouter list
  are the same. The two entries are deleted from the copy only.
\<close>

theorem save_does_not_mutate:
  assumes "knowledge_ref self < fresh h"
  shows "\<exists>res self' h'. save_obj fr self h = (res, self', h')
           \<and> res = save fr (manager_of self h r n)
           \<and> self' = self
           \<and> dict_at h' (knowledge_ref self) = dict_at h (knowledge_ref self)
           \<and> getitem (dict_at h' (knowledge_ref self')) ''food'' = getitem (dict_at h (knowledge_ref self)) ''food''
           \<and> getitem (dict_at h' (knowledge_ref self')) ''max_scouters''
               = getitem (dict_at h (knowledge_ref self)) ''max_scouters''
           \<and> (\<forall>a < fresh h. dict_at h' a = dict_at h a)
           \<and> manager_of self' h' r n = manager_of self h r n"
  using assms
  by (auto simp: save_obj_def save_def dict_copy_def dict_del_def manager_of_def split: sum.splits)


theorem save_does_not_mutate_witness:
  "knowledge_ref self1 < fresh heap1
   \<and> (\<exists>s h'. save_obj float_repr0 self1 heap1 = (Inr s, self1, h')
         \<and> getitem (dict_at h' 0) ''food'' = Inr (PList [coord (1, 0), coord (2, 1)])
         \<and> getitem (dict_at h' 0) ''max_scouters'' = Inr (PInt 3))"
proof -
  have a: "knowledge_ref self1 < fresh heap1"
    by (simp add: self1_def heap1_def)
  have "isl (save float_repr0 (manager_of self1 heap1 (\<lambda>i. 0) 0)) = False"
    by code_simp
  then obtain s where b: "save float_repr0 (manager_of self1 heap1 (\<lambda>i. 0) 0) = Inr s"
    by (cases "save float_repr0 (manager_of self1 heap1 (\<lambda>i. 0) 0)") auto
  have c: "getitem (dict_at heap1 (knowledge_ref self1)) ''food'' = Inr (PList [coord (1, 0), coord (2, 1)])"
    "getitem (dict_at heap1 (knowledge_ref self1)) ''max_scouters'' = Inr (PInt 3)"
    "knowledge_ref self1 = 0"
    by code_simp+
  show ?thesis
    using a b c save_does_not_mutate [OF a, of float_repr0 "\<lambda>i. 0" 0]
    by auto
qed

section \<open>save is deterministic and survives a reload\<close>






























lemma round_double_0 [simp]: "round_double 0 = Finite 0"
  by (simp add: round_double_def)

lemma round_double_not_NaN [simp]: "round_double x \<noteq> NaN"
  by (simp add: round_double_def round_unit_def finish_def)


lemma to_float_0 [simp]: "to_float 0 = Inr (Finite 0)"
  by (simp add: to_float_def)









text \<open>
  Two dictionaries with the same entries, each key once, in any order, are the same up to
  key order.
\<close>

lemma reordered_same_up_to_key_order:
  assumes "distinct (map fst a)" and "distinct (map fst b)" and "set a = set b"
  shows "same_up_to_key_order (PDict a) (PDict b)"
proof -
  let ?G = "\<lambda>kv :: string \<times> pyval. (fst kv, canon (snd kv))"
  let ?xs = "sort_key fst (map ?G a)" and ?ys = "sort_key fst (map ?G b)"
  have k: "map fst (map ?G zs) = map fst zs" for zs :: dict
    by (simp add: comp_def)
  have ds: "distinct (map fst (sort_key fst zs)) = distinct (map fst zs)" for zs :: dict
    by (induction zs) (simp_all add: distinct_insort_key)
  have da: "distinct (map fst ?xs)" and db: "distinct (map fst ?ys)"
    using assms(1,2) by (simp_all only: ds k)
  have sa: "sorted (map fst ?xs)" and sb: "sorted (map fst ?ys)"
    by simp_all
  have st: "set ?xs = set ?ys"
    using assms(3) by simp
  have inj: "inj_on fst (set ?xs \<union> set ?ys)"
    using da st by (simp add: distinct_map)
  have "?xs = ?ys"
    using inj sa da sb db st by (rule map_sorted_distinct_set_unique)
  then show ?thesis
    by (simp add: same_up_to_key_order_def)
qed

text \<open>The text of a small dictionary, as \<^verbatim>\<open>json.dumps\<close> writes it.\<close>

lemma dumps_example:
  "dumps fr 0 (PDict [(''b'', PList [PInt 1, PInt (- 20)]), (''a'', PDict [])])
     = ''{'' @ [CHR 0x0A] @ ''    '' @ [CHR 0x22] @ ''a'' @ [CHR 0x22] @ '': {},'' @ [CHR 0x0A]
       @ ''    '' @ [CHR 0x22] @ ''b'' @ [CHR 0x22] @ '': ['' @ [CHR 0x0A]
       @ ''        1,'' @ [CHR 0x0A] @ ''        -20'' @ [CHR 0x0A] @ ''    ]'' @ [CHR 0x0A] @ ''}''"
  by code_simp

end
